theory Spec2Isabelle
  imports Main "HOL-Library.Sublist"
begin

section \<open>JavaScript strings\<close>

text \<open>
  Source texts are modelled as \<open>string\<close>, a list of 8-bit characters: the model covers
  texts whose UTF-16 code units are all below 256. The helpers follow
  \<^verbatim>\<open>String.prototype.split\<close> (with a non-empty string separator),
  \<^verbatim>\<open>Array.prototype.join\<close> and \<^verbatim>\<open>String.prototype.includes\<close>.
\<close>

fun split_from :: "string \<Rightarrow> string \<Rightarrow> string \<Rightarrow> string list" where
  "split_from sep acc [] = [rev acc]"
| "split_from sep acc (c # cs) =
     (if sep \<noteq> [] \<and> prefix sep (c # cs)
      then rev acc # split_from sep [] (drop (length sep - 1) cs)
      else split_from sep (c # acc) cs)"

definition str_split :: "string \<Rightarrow> string \<Rightarrow> string list" where
  "str_split s sep = split_from sep [] s"

fun str_join :: "string \<Rightarrow> string list \<Rightarrow> string" where
  "str_join sep [] = []"
| "str_join sep [x] = x"
| "str_join sep (x # y # ys) = x @ sep @ str_join sep (y # ys)"

fun str_includes :: "string \<Rightarrow> string \<Rightarrow> bool" where
  "str_includes [] sub = (sub = [])"
| "str_includes (c # cs) sub = (prefix sub (c # cs) \<or> str_includes cs sub)"

section \<open>Regular expressions of the rule tables\<close>

text \<open>
  The patterns of \<^verbatim>\<open>ImportPathResolver\<close> only use literal characters, the classes
  \<^verbatim>\<open>["']\<close>, \<^verbatim>\<open>\s+\<close>, \<^verbatim>\<open>\s*\<close>, the word boundary \<^verbatim>\<open>\b\<close> and
  \<^verbatim>\<open>$\<close>. A pattern is the list of its atoms.
\<close>

datatype atom = Lit char | OneOf "char list" | WsPlus | WsStar | WordB | EndInput

definition is_space :: "char \<Rightarrow> bool" where
  "is_space c = (c \<in> set [CHR 0x09, CHR 0x0A, CHR 0x0B, CHR 0x0C, CHR 0x0D, CHR 0x20, CHR 0xA0])"

definition is_word :: "char \<Rightarrow> bool" where
  "is_word c = (let n = (of_char c :: nat) in
     (48 \<le> n \<and> n \<le> 57) \<or> (65 \<le> n \<and> n \<le> 90) \<or> n = 95 \<or> (97 \<le> n \<and> n \<le> 122))"

definition word_before :: "char option \<Rightarrow> bool" where
  "word_before p = (case p of None \<Rightarrow> False | Some c \<Rightarrow> is_word c)"

definition word_at :: "string \<Rightarrow> bool" where
  "word_at s = (case s of [] \<Rightarrow> False | c # _ \<Rightarrow> is_word c)"

text \<open>
  \<open>match_here r p s\<close> matches the atoms \<open>r\<close> at the start of \<open>s\<close>, where \<open>p\<close> is the
  character just before \<open>s\<close> in the whole text; it returns the number of characters
  consumed. Whitespace runs are greedy, with backtracking.
\<close>

fun match_here :: "atom list \<Rightarrow> char option \<Rightarrow> string \<Rightarrow> nat option" where
  "match_here [] p s = Some 0"
| "match_here (Lit c # r) p [] = None"
| "match_here (Lit c # r) p (x # xs) =
     (if x = c then map_option Suc (match_here r (Some x) xs) else None)"
| "match_here (OneOf cs # r) p [] = None"
| "match_here (OneOf cs # r) p (x # xs) =
     (if x \<in> set cs then map_option Suc (match_here r (Some x) xs) else None)"
| "match_here (WsPlus # r) p [] = None"
| "match_here (WsPlus # r) p (x # xs) =
     (if is_space x then map_option Suc (match_here (WsStar # r) (Some x) xs) else None)"
| "match_here (WsStar # r) p [] = match_here r p []"
| "match_here (WsStar # r) p (x # xs) =
     (if is_space x
      then (case match_here (WsStar # r) (Some x) xs of
              Some n \<Rightarrow> Some (Suc n)
            | None \<Rightarrow> match_here r p (x # xs))
      else match_here r p (x # xs))"
| "match_here (WordB # r) p s =
     (if word_before p \<noteq> word_at s then match_here r p s else None)"
| "match_here (EndInput # r) p s = (if s = [] then match_here r p s else None)"

text \<open>The leftmost match at or after the current position \<open>i\<close>: its start and end index.\<close>

fun search :: "atom list \<Rightarrow> char option \<Rightarrow> string \<Rightarrow> nat \<Rightarrow> (nat \<times> nat) option" where
  "search r p [] i = map_option (\<lambda>n. (i, i + n)) (match_here r p [])"
| "search r p (x # xs) i =
     (case match_here r p (x # xs) of
        Some n \<Rightarrow> Some (i, i + n)
      | None \<Rightarrow> search r (Some x) xs (Suc i))"

text \<open>All non-overlapping matches, left to right, as \<^verbatim>\<open>match\<close> with the g flag lists them.\<close>

fun match_all :: "atom list \<Rightarrow> char option \<Rightarrow> string \<Rightarrow> string list" where
  "match_all r p [] = (case match_here r p [] of Some n \<Rightarrow> [[]] | None \<Rightarrow> [])"
| "match_all r p (x # xs) =
     (case match_here r p (x # xs) of
        None \<Rightarrow> match_all r (Some x) xs
      | Some 0 \<Rightarrow> [] # match_all r (Some x) xs
      | Some (Suc n) \<Rightarrow> take (Suc n) (x # xs) # match_all r (Some ((x # xs) ! n)) (drop n xs))"

text \<open>
  Every match replaced by \<open>rep\<close>, as \<^verbatim>\<open>replace\<close> with the g flag does. The replacement
  texts of the tables contain no \<^verbatim>\<open>$\<close>, so they are inserted literally.
\<close>

fun replace_all :: "atom list \<Rightarrow> string \<Rightarrow> char option \<Rightarrow> string \<Rightarrow> string" where
  "replace_all r rep p [] = (case match_here r p [] of Some n \<Rightarrow> rep | None \<Rightarrow> [])"
| "replace_all r rep p (x # xs) =
     (case match_here r p (x # xs) of
        None \<Rightarrow> x # replace_all r rep (Some x) xs
      | Some 0 \<Rightarrow> rep @ x # replace_all r rep (Some x) xs
      | Some (Suc n) \<Rightarrow> rep @ replace_all r rep (Some ((x # xs) ! n)) (drop n xs))"

subsection \<open>RegExp objects\<close>

text \<open>
  A \<^verbatim>\<open>RegExp\<close> object carries the mutable property \<^verbatim>\<open>lastIndex\<close>. With the g flag,
  \<^verbatim>\<open>exec\<close> and \<^verbatim>\<open>test\<close> start at \<^verbatim>\<open>lastIndex\<close>, store the end of the match
  there on success and 0 on failure; \<^verbatim>\<open>match\<close> and \<^verbatim>\<open>replace\<close> start from 0 and
  leave 0 behind.
\<close>

record regexp =
  atoms :: "atom list"
  global :: bool
  lastIndex :: nat

definition char_before :: "string \<Rightarrow> nat \<Rightarrow> char option" where
  "char_before s i = (if i = 0 then None else Some (s ! (i - 1)))"

definition regexp_exec :: "regexp \<Rightarrow> string \<Rightarrow> (nat \<times> nat) option \<times> regexp" where
  "regexp_exec re s =
     (let li = (if global re then lastIndex re else 0) in
      if li > length s then (None, if global re then re\<lparr>lastIndex := 0\<rparr> else re)
      else (case search (atoms re) (char_before s li) (drop li s) li of
              None \<Rightarrow> (None, if global re then re\<lparr>lastIndex := 0\<rparr> else re)
            | Some (b, e) \<Rightarrow> (Some (b, e), if global re then re\<lparr>lastIndex := e\<rparr> else re)))"

definition regexp_test :: "regexp \<Rightarrow> string \<Rightarrow> bool \<times> regexp" where
  "regexp_test re s = (let (m, re') = regexp_exec re s in (m \<noteq> None, re'))"

text \<open>A regular-expression literal evaluated in place is a fresh object each time.\<close>

definition test_literal :: "atom list \<Rightarrow> string \<Rightarrow> bool" where
  "test_literal r s = fst (regexp_test \<lparr>atoms = r, global = False, lastIndex = 0\<rparr> s)"

text \<open>\<^verbatim>\<open>s.match(re)\<close> and \<^verbatim>\<open>s.replace(re, rep)\<close> for a regexp with the g flag.\<close>

definition str_match :: "string \<Rightarrow> regexp \<Rightarrow> string list option \<times> regexp" where
  "str_match s re =
     (let ms = match_all (atoms re) None s
      in (if ms = [] then None else Some ms, re\<lparr>lastIndex := 0\<rparr>))"

definition str_replace :: "string \<Rightarrow> regexp \<Rightarrow> string \<Rightarrow> string \<times> regexp" where
  "str_replace s re rep = (replace_all (atoms re) rep None s, re\<lparr>lastIndex := 0\<rparr>)"

fun atom_source :: "atom \<Rightarrow> string" where
  "atom_source (Lit c) = (if c \<in> set ''.()'' then [CHR 0x5C, c] else [c])"
| "atom_source (OneOf cs) = ''['' @ cs @ '']''"
| "atom_source WsPlus = CHR 0x5C # ''s+''"
| "atom_source WsStar = CHR 0x5C # ''s*''"
| "atom_source WordB = CHR 0x5C # ''b''"
| "atom_source EndInput = ''$''"

definition regexp_toString :: "regexp \<Rightarrow> string" where
  "regexp_toString re =
     ''/'' @ concat (map atom_source (atoms re)) @ ''/'' @ (if global re then ''g'' else '''')"

section \<open>ImportPathResolver\<close>

text \<open>
  The class \<^verbatim>\<open>ImportPathResolver\<close> of
  \<^verbatim>\<open>src/web-companion/src/services/PackageManager.js\<close>: its two rule tables
  (lines 189 to 312) and \<^verbatim>\<open>transformCode\<close> with the validation it calls (lines 326
  to 472). The \<^verbatim>\<open>stats\<close> object is left out: \<^verbatim>\<open>transformCode\<close> does not touch it.
\<close>

record rule =
  pattern :: regexp
  replacement :: string

definition regexp_g :: "atom list \<Rightarrow> regexp" where
  "regexp_g r = \<lparr>atoms = r, global = True, lastIndex = 0\<rparr>"

text \<open>
  The three shapes of the relative-import patterns:
  \<^verbatim>\<open>/from\s+NAME\b/g\<close>, \<^verbatim>\<open>/import\s+NAME\b/g\<close> and \<^verbatim>\<open>/from\s+\.NAME\b/g\<close>.
\<close>

definition rel_from :: "string \<Rightarrow> string \<Rightarrow> rule" where
  "rel_from name rep =
     \<lparr>pattern = regexp_g (map Lit ''from'' @ [WsPlus] @ map Lit name @ [WordB]),
      replacement = rep\<rparr>"

definition rel_import :: "string \<Rightarrow> string \<Rightarrow> rule" where
  "rel_import name rep =
     \<lparr>pattern = regexp_g (map Lit ''import'' @ [WsPlus] @ map Lit name @ [WordB]),
      replacement = rep\<rparr>"

definition rel_from_dot :: "string \<Rightarrow> string \<Rightarrow> rule" where
  "rel_from_dot name rep =
     \<lparr>pattern = regexp_g (map Lit ''from'' @ [WsPlus] @ map Lit (CHR ''.'' # name) @ [WordB]),
      replacement = rep\<rparr>"

text \<open>The two tables the constructor builds, every \<^verbatim>\<open>lastIndex\<close> at 0.\<close>

definition importTransformations_init :: "rule list" where
  "importTransformations_init =
    [\<lparr>pattern = regexp_g (map Lit ''from'' @ [WsPlus] @ map Lit ''src.''),
      replacement = ''from mastering_performant_code.''\<rparr>,
     \<lparr>pattern = regexp_g (map Lit ''import'' @ [WsPlus] @ map Lit ''src.''),
      replacement = ''import mastering_performant_code.''\<rparr>,
     \<lparr>pattern = regexp_g (map Lit ''__import__('' @ [OneOf [CHR 0x22, CHR 0x27]] @ map Lit ''src.''),
      replacement = ''__import__('' @ CHR 0x22 # ''mastering_performant_code.''\<rparr>,
     \<lparr>pattern = regexp_g (Lit (CHR 0x27) # map Lit ''src.''),
      replacement = CHR 0x27 # ''mastering_performant_code.''\<rparr>,
     \<lparr>pattern = regexp_g (Lit (CHR 0x22) # map Lit ''src.''),
      replacement = CHR 0x22 # ''mastering_performant_code.''\<rparr>]"

definition relativeImportMappings_init :: "rule list" where
  "relativeImportMappings_init =
    [
     rel_from ''dynamic_array'' ''from mastering_performant_code.chapter_01.dynamic_array'',
     rel_import ''dynamic_array'' ''import mastering_performant_code.chapter_01.dynamic_array'',
     rel_from ''hash_table'' ''from mastering_performant_code.chapter_01.hash_table'',
     rel_import ''hash_table'' ''import mastering_performant_code.chapter_01.hash_table'',
     rel_from ''simple_set'' ''from mastering_performant_code.chapter_01.simple_set'',
     rel_import ''simple_set'' ''import mastering_performant_code.chapter_01.simple_set'',
     rel_from ''analyzer'' ''from mastering_performant_code.chapter_01.analyzer'',
     rel_import ''analyzer'' ''import mastering_performant_code.chapter_01.analyzer'',
     rel_from ''algorithms'' ''from mastering_performant_code.chapter_02.algorithms'',
     rel_import ''algorithms'' ''import mastering_performant_code.chapter_02.algorithms'',
     rel_from ''benchmarks'' ''from mastering_performant_code.chapter_02.benchmarks'',
     rel_import ''benchmarks'' ''import mastering_performant_code.chapter_02.benchmarks'',
     rel_from ''profiler'' ''from mastering_performant_code.chapter_02.profiler'',
     rel_import ''profiler'' ''import mastering_performant_code.chapter_02.profiler'',
     rel_from_dot ''algorithms'' ''from mastering_performant_code.chapter_02.algorithms'',
     rel_from_dot ''benchmarks'' ''from mastering_performant_code.chapter_02.benchmarks'',
     rel_from_dot ''profiler'' ''from mastering_performant_code.chapter_02.profiler'',
     rel_from ''applications'' ''from mastering_performant_code.chapter_03.applications'',
     rel_import ''applications'' ''import mastering_performant_code.chapter_03.applications'',
     rel_from_dot ''applications'' ''from mastering_performant_code.chapter_03.applications'',
     rel_from ''dynamic_array'' ''from mastering_performant_code.chapter_03.dynamic_array'',
     rel_import ''dynamic_array'' ''import mastering_performant_code.chapter_03.dynamic_array'',
     rel_from_dot ''dynamic_array'' ''from mastering_performant_code.chapter_03.dynamic_array'',
     rel_from ''singly_linked_list'' ''from mastering_performant_code.chapter_04.singly_linked_list'',
     rel_from ''doubly_linked_list'' ''from mastering_performant_code.chapter_04.doubly_linked_list'',
     rel_from_dot ''singly_linked_list'' ''from mastering_performant_code.chapter_04.singly_linked_list'',
     rel_from_dot ''doubly_linked_list'' ''from mastering_performant_code.chapter_04.doubly_linked_list'',
     rel_from ''priority_queue'' ''from mastering_performant_code.chapter_05.priority_queue'',
     rel_from ''skip_list'' ''from mastering_performant_code.chapter_05.skip_list'',
     rel_from_dot ''priority_queue'' ''from mastering_performant_code.chapter_05.priority_queue'',
     rel_from_dot ''skip_list'' ''from mastering_performant_code.chapter_05.skip_list'',
     rel_from ''bst_node'' ''from mastering_performant_code.chapter_06.bst_node'',
     rel_from_dot ''bst_node'' ''from mastering_performant_code.chapter_06.bst_node'',
     rel_from ''avl_node'' ''from mastering_performant_code.chapter_07.avl_node'',
     rel_from_dot ''avl_node'' ''from mastering_performant_code.chapter_07.avl_node'',
     rel_from ''red_black_tree'' ''from mastering_performant_code.chapter_08.red_black_tree'',
     rel_from_dot ''red_black_tree'' ''from mastering_performant_code.chapter_08.red_black_tree'',
     rel_from ''btree_node'' ''from mastering_performant_code.chapter_09.btree_node'',
     rel_from_dot ''btree_node'' ''from mastering_performant_code.chapter_09.btree_node'',
     rel_from ''autocomplete'' ''from mastering_performant_code.chapter_10.autocomplete'',
     rel_from_dot ''autocomplete'' ''from mastering_performant_code.chapter_10.autocomplete'',
     rel_from ''binary_heap'' ''from mastering_performant_code.chapter_11.binary_heap'',
     rel_from_dot ''binary_heap'' ''from mastering_performant_code.chapter_11.binary_heap'',
     rel_from ''heap_sort'' ''from mastering_performant_code.chapter_11.heap_sort'',
     rel_from_dot ''heap_sort'' ''from mastering_performant_code.chapter_11.heap_sort'',
     rel_from ''task_scheduler'' ''from mastering_performant_code.chapter_11.task_scheduler'',
     rel_from_dot ''task_scheduler'' ''from mastering_performant_code.chapter_11.task_scheduler'',
     rel_from ''disjoint_set'' ''from mastering_performant_code.chapter_12.disjoint_set'',
     rel_from_dot ''disjoint_set'' ''from mastering_performant_code.chapter_12.disjoint_set'',
     rel_from ''hash_table'' ''from mastering_performant_code.chapter_13.hash_table'',
     rel_from_dot ''hash_table'' ''from mastering_performant_code.chapter_13.hash_table'',
     rel_from ''bloom_filter'' ''from mastering_performant_code.chapter_14.bloom_filter'',
     rel_from ''counting_bloom_filter'' ''from mastering_performant_code.chapter_14.counting_bloom_filter'',
     rel_from ''scalable_bloom_filter'' ''from mastering_performant_code.chapter_14.scalable_bloom_filter'',
     rel_from_dot ''bloom_filter'' ''from mastering_performant_code.chapter_14.bloom_filter'',
     rel_from_dot ''counting_bloom_filter'' ''from mastering_performant_code.chapter_14.counting_bloom_filter'',
     rel_from_dot ''scalable_bloom_filter'' ''from mastering_performant_code.chapter_14.scalable_bloom_filter'',
     rel_from ''lru_cache'' ''from mastering_performant_code.chapter_15.lru_cache'',
     rel_from ''lfu_cache'' ''from mastering_performant_code.chapter_15.lfu_cache'',
     rel_from ''real_world_applications'' ''from mastering_performant_code.chapter_15.real_world_applications'',
     rel_from ''performance_analyzer'' ''from mastering_performant_code.chapter_15.performance_analyzer'',
     rel_from_dot ''lru_cache'' ''from mastering_performant_code.chapter_15.lru_cache'',
     rel_from_dot ''lfu_cache'' ''from mastering_performant_code.chapter_15.lfu_cache'',
     rel_from_dot ''real_world_applications'' ''from mastering_performant_code.chapter_15.real_world_applications'',
     rel_from_dot ''performance_analyzer'' ''from mastering_performant_code.chapter_15.performance_analyzer'',
     rel_from ''memory_profiler'' ''from mastering_performant_code.chapter_16.memory_profiler'',
     rel_from ''object_pool'' ''from mastering_performant_code.chapter_16.object_pool'',
     rel_from ''integration_patterns'' ''from mastering_performant_code.chapter_16.integration_patterns'',
     rel_from_dot ''memory_profiler'' ''from mastering_performant_code.chapter_16.memory_profiler'',
     rel_from_dot ''object_pool'' ''from mastering_performant_code.chapter_16.object_pool'',
     rel_from_dot ''integration_patterns'' ''from mastering_performant_code.chapter_16.integration_patterns'',
     rel_from ''btree'' ''from mastering_performant_code.chapter_09.btree'',
     rel_from_dot ''btree'' ''from mastering_performant_code.chapter_09.btree'',
     rel_from ''database_index'' ''from mastering_performant_code.chapter_09.database_index'',
     rel_from_dot ''database_index'' ''from mastering_performant_code.chapter_09.database_index'',
     rel_from ''recursive_bst'' ''from mastering_performant_code.chapter_06.recursive_bst'',
     rel_from_dot ''recursive_bst'' ''from mastering_performant_code.chapter_06.recursive_bst'']"

record resolver =
  importTransformations :: "rule list"
  relativeImportMappings :: "rule list"

definition new_resolver :: resolver where
  "new_resolver =
     \<lparr>importTransformations = importTransformations_init,
      relativeImportMappings = relativeImportMappings_init\<rparr>"

record transformation =
  t_pattern :: string
  t_replacement :: string
  t_count :: nat
  t_type :: string

record diagnostics =
  transformations :: "transformation list"
  warnings :: "string list"
  errors :: "string list"

record transform_result =
  transformedCode :: string
  diagnostics :: diagnostics

definition detectPotentialIssues :: "string \<Rightarrow> string list \<times> string list" where
  "detectPotentialIssues code =
     ((if str_includes code ''mastering_performant_code.mastering_performant_code''
       then [''Potential double transformation detected''] else []) @
      (if str_includes code ''src.'' \<and> str_includes code ''mastering_performant_code.''
       then [''Mixed import patterns detected - some imports may not be transformed''] else []),
      (if str_includes code ''from mastering_performant_code. import''
       then [''Invalid import statement: missing module name after dot''] else []))"

definition hasSyntaxErrors :: "string \<Rightarrow> bool" where
  "hasSyntaxErrors code =
     (test_literal (map Lit ''from'' @ [WsPlus] @ map Lit ''mastering_performant_code.''
                      @ [WsStar] @ map Lit ''import'') code
      \<or> test_literal (map Lit ''import'' @ [WsPlus] @ map Lit ''mastering_performant_code.''
                      @ [WsStar, EndInput]) code
      \<or> test_literal (map Lit ''from'' @ [WsPlus] @ map Lit ''mastering_performant_code.''
                      @ [WsStar, EndInput]) code)"

text \<open>The warnings and the errors of \<^verbatim>\<open>validateTransformation\<close>.\<close>

definition validateTransformation :: "string \<Rightarrow> string \<Rightarrow> string list \<times> string list" where
  "validateTransformation originalCode transformed =
     (let w0 = (if originalCode = transformed then [''No transformations were applied''] else []);
          (iw, ie) = detectPotentialIssues transformed
      in (w0 @ iw,
          ie @ (if hasSyntaxErrors transformed
                then [''Transformed code contains syntax errors''] else [])))"

text \<open>
  The first loop of \<^verbatim>\<open>transformCode\<close>: each \<^verbatim>\<open>src.\<close> rule in table order, on the
  whole text. The rules are returned with the state their regexps are left in.
\<close>

fun apply_src_rules ::
  "rule list \<Rightarrow> string \<Rightarrow> transformation list \<Rightarrow> rule list \<times> string \<times> transformation list" where
  "apply_src_rules [] code ts = ([], code, ts)"
| "apply_src_rules (r # rs) code ts =
     (let (matches, p1) = str_match code (pattern r) in
      case matches of
        None \<Rightarrow>
          (let (rs', code', ts') = apply_src_rules rs code ts
           in (r\<lparr>pattern := p1\<rparr> # rs', code', ts'))
      | Some ms \<Rightarrow>
          (let (code1, p2) = str_replace code p1 (replacement r);
               t = \<lparr>t_pattern = regexp_toString p2, t_replacement = replacement r,
                    t_count = length ms, t_type = ''src_transformation''\<rparr>;
               (rs', code', ts') = apply_src_rules rs code1 (ts @ [t])
           in (r\<lparr>pattern := p2\<rparr> # rs', code', ts')))"

definition guard_from :: "atom list" where
  "guard_from = map Lit ''from'' @ [WsPlus] @ map Lit ''mastering_performant_code.''"

definition guard_import :: "atom list" where
  "guard_import = map Lit ''import'' @ [WsPlus] @ map Lit ''mastering_performant_code.''"

text \<open>
  The inner loop of the second phase, on one line: \<^verbatim>\<open>pattern.test(line)\<close> runs first
  and moves the pattern's \<^verbatim>\<open>lastIndex\<close>; only when the two guards also hold does
  \<^verbatim>\<open>replace\<close> run (and reset it). \<open>n\<close> is \<^verbatim>\<open>totalRelTransformations\<close>.
\<close>

fun apply_rel_rules :: "rule list \<Rightarrow> string \<Rightarrow> nat \<Rightarrow> rule list \<times> string \<times> nat" where
  "apply_rel_rules [] line n = ([], line, n)"
| "apply_rel_rules (r # rs) line n =
     (let (hit, p1) = regexp_test (pattern r) line in
      if hit \<and> \<not> test_literal guard_from line \<and> \<not> test_literal guard_import line
      then (let (newLine, p2) = str_replace line p1 (replacement r) in
            if newLine \<noteq> line
            then (let (rs', line', n') = apply_rel_rules rs newLine (Suc n)
                  in (r\<lparr>pattern := p2\<rparr> # rs', line', n'))
            else (let (rs', line', n') = apply_rel_rules rs line n
                  in (r\<lparr>pattern := p2\<rparr> # rs', line', n')))
      else (let (rs', line', n') = apply_rel_rules rs line n
            in (r\<lparr>pattern := p1\<rparr> # rs', line', n')))"

fun map_lines :: "rule list \<Rightarrow> string list \<Rightarrow> nat \<Rightarrow> rule list \<times> string list \<times> nat" where
  "map_lines rules [] n = (rules, [], n)"
| "map_lines rules (l # ls) n =
     (let (rules1, l', n1) = apply_rel_rules rules l n;
          (rules2, ls', n2) = map_lines rules1 ls n1
      in (rules2, l' # ls', n2))"

definition transformCode :: "resolver \<Rightarrow> string \<Rightarrow> transform_result \<times> resolver" where
  "transformCode this code =
     (let (its, code1, ts1) = apply_src_rules (importTransformations this) code [];
          (rels, lines, total) = map_lines (relativeImportMappings this) (str_split code1 [CHR 0x0A]) 0;
          ts2 = (if total > 0
                 then ts1 @ [\<lparr>t_pattern = ''relativeImportMappings'',
                              t_replacement = ''chapter-specific'',
                              t_count = total, t_type = ''relative_import_mapping''\<rparr>]
                 else ts1);
          code2 = str_join [CHR 0x0A] lines;
          (ws, es) = validateTransformation code code2
      in (\<lparr>transformedCode = code2,
           diagnostics = \<lparr>transformations = ts2, warnings = ws, errors = es\<rparr>\<rparr>,
          \<lparr>importTransformations = its, relativeImportMappings = rels\<rparr>))"

section \<open>PackageManager\<close>

text \<open>
  The class \<^verbatim>\<open>PackageManager\<close> of \<^verbatim>\<open>src/web-companion/src/services/PackageManager.js\<close>
  (lines 9 to 175): \<^verbatim>\<open>updateProgress\<close>, \<^verbatim>\<open>installPackage\<close>,
  \<^verbatim>\<open>verifyInstallation\<close> and \<^verbatim>\<open>reset\<close>. The awaited calls of
  \<^verbatim>\<open>installPackage\<close> are answered by the interpreter collaborator. An answer is a
  settled promise; \<open>None\<close> stands for a promise that never settles.
\<close>

datatype 'a settled = Fulfilled 'a | Rejected string

record progress =
  status :: string
  percentage :: nat
  message :: string

text \<open>
  The fields of the class, and two observation fields that the class does not have:
  \<open>progress_events\<close> lists every value \<^verbatim>\<open>updateProgress\<close> has stored (each one is passed
  to the registered callback at that moment, which is assumed not to throw), \<open>requests\<close>
  lists every call made to the interpreter (package loading, download, verification
  scripts).
\<close>

record package_manager =
  isInstalled :: bool
  isInstalling :: bool
  installationProgress :: progress
  progress_events :: "progress list"
  requests :: "string list"

definition packageUrl :: string where
  "packageUrl = ''/assets/mastering_performant_code-1.0.0-py3-none-any.whl''"

definition idle_progress :: progress where
  "idle_progress = \<lparr>status = ''idle'', percentage = 0, message = []\<rparr>"

definition new_package_manager :: package_manager where
  "new_package_manager =
     \<lparr>isInstalled = False, isInstalling = False, installationProgress = idle_progress,
      progress_events = [], requests = []\<rparr>"

definition updateProgress :: "string \<Rightarrow> nat \<Rightarrow> string \<Rightarrow> package_manager \<Rightarrow> package_manager" where
  "updateProgress st pct msg this =
     (let p = \<lparr>status = st, percentage = pct, message = msg\<rparr>
      in this\<lparr>installationProgress := p, progress_events := progress_events this @ [p]\<rparr>)"

definition request :: "string \<Rightarrow> package_manager \<Rightarrow> package_manager" where
  "request what this = this\<lparr>requests := requests this @ [what]\<rparr>"

text \<open>
  \<^verbatim>\<open>installPackage\<close> is an async function: it runs up to its next \<^verbatim>\<open>await\<close>, and
  other calls can run on the object while it is suspended there. The points of suspension
  are the four awaited calls (the last two inside \<^verbatim>\<open>verifyInstallation\<close>).
\<close>

datatype await_point = Await_loadPackage | Await_install | Await_verify_import | Await_verify_chapters

datatype install_step = Returned "bool settled" | Suspended await_point

text \<open>The \<^verbatim>\<open>catch\<close> block followed by the \<^verbatim>\<open>finally\<close> block.\<close>

definition install_failed :: "string \<Rightarrow> package_manager \<Rightarrow> install_step \<times> package_manager" where
  "install_failed err this =
     (Returned (Rejected err),
      (updateProgress ''error'' 0 (''Installation failed: '' @ err) this)\<lparr>isInstalling := False\<rparr>)"

text \<open>From the call to the first \<^verbatim>\<open>await\<close>.\<close>

definition installPackage_enter :: "package_manager \<Rightarrow> install_step \<times> package_manager" where
  "installPackage_enter this =
     (if isInstalled this then (Returned (Fulfilled True), this)
      else if isInstalling this then (Returned (Fulfilled False), this)
      else (Suspended Await_loadPackage,
            request ''loadPackage''
              (updateProgress ''loading_micropip'' 10 ''Loading micropip...''
                (updateProgress ''starting'' 0 ''Starting package installation...''
                  (this\<lparr>isInstalling := True\<rparr>)))))"

text \<open>
  From one \<^verbatim>\<open>await\<close> to the next, given how the awaited promise settled.
  \<open>pyimport\<close> is the outcome of the synchronous \<^verbatim>\<open>pyodide.pyimport('micropip')\<close>.
  A rejected verification script is caught inside \<^verbatim>\<open>verifyInstallation\<close>, which then
  returns false, and \<^verbatim>\<open>installPackage\<close> throws \<^verbatim>\<open>Package verification failed\<close>.
\<close>

fun installPackage_resume ::
  "await_point \<Rightarrow> unit settled \<Rightarrow> unit settled \<Rightarrow> package_manager \<Rightarrow> install_step \<times> package_manager" where
  "installPackage_resume Await_loadPackage (Rejected e) pyimport this = install_failed e this"
| "installPackage_resume Await_loadPackage (Fulfilled _) pyimport this =
     (let this1 = updateProgress ''downloading'' 30 ''Downloading package from GitHub...'' this
      in case pyimport of
           Rejected e \<Rightarrow> install_failed e this1
         | Fulfilled _ \<Rightarrow> (Suspended Await_install, request ''micropip.install'' this1))"
| "installPackage_resume Await_install (Rejected e) pyimport this = install_failed e this"
| "installPackage_resume Await_install (Fulfilled _) pyimport this =
     (Suspended Await_verify_import,
      request ''runPythonAsync''
        (updateProgress ''verifying'' 90 ''Verifying package installation...'' this))"
| "installPackage_resume Await_verify_import (Rejected e) pyimport this =
     install_failed ''Package verification failed'' this"
| "installPackage_resume Await_verify_import (Fulfilled _) pyimport this =
     (Suspended Await_verify_chapters, request ''runPythonAsync'' this)"
| "installPackage_resume Await_verify_chapters (Rejected e) pyimport this =
     install_failed ''Package verification failed'' this"
| "installPackage_resume Await_verify_chapters (Fulfilled _) pyimport this =
     (Returned (Fulfilled True),
      (updateProgress ''complete'' 100 ''Package installed successfully!''
         (this\<lparr>isInstalled := True\<rparr>))\<lparr>isInstalling := False\<rparr>)"

text \<open>
  How the interpreter answers during one call: the outcome of each awaited call
  (\<open>None\<close>: it never settles) and of \<^verbatim>\<open>pyimport\<close>.
\<close>

record pyodide_answers =
  on_loadPackage :: "unit settled option"
  on_pyimport :: "unit settled"
  on_install :: "unit settled option"
  on_verify_import :: "unit settled option"
  on_verify_chapters :: "unit settled option"

definition answer_at :: "pyodide_answers \<Rightarrow> await_point \<Rightarrow> unit settled option" where
  "answer_at py a =
     (case a of Await_loadPackage \<Rightarrow> on_loadPackage py
              | Await_install \<Rightarrow> on_install py
              | Await_verify_import \<Rightarrow> on_verify_import py
              | Await_verify_chapters \<Rightarrow> on_verify_chapters py)"

text \<open>
  One call run to completion with no other call in between. The result is \<open>None\<close> when
  an awaited promise never settles: the call then never returns. The await points are
  passed in a fixed order, which is what makes the run terminate.
\<close>

fun await_rank :: "install_step \<Rightarrow> nat" where
  "await_rank (Suspended Await_loadPackage) = 4"
| "await_rank (Suspended Await_install) = 3"
| "await_rank (Suspended Await_verify_import) = 2"
| "await_rank (Suspended Await_verify_chapters) = 1"
| "await_rank (Returned r) = 0"

function install_run ::
  "pyodide_answers \<Rightarrow> install_step \<times> package_manager \<Rightarrow> (bool settled \<times> package_manager) option" where
  "install_run py (Returned r, this) = Some (r, this)"
| "install_run py (Suspended a, this) =
     (case answer_at py a of
        None \<Rightarrow> None
      | Some outcome \<Rightarrow> install_run py (installPackage_resume a outcome (on_pyimport py) this))"
  by pat_completeness auto
termination
proof (relation "measure (\<lambda>(py, st, this). await_rank st)")
  show "wf (measure (\<lambda>(py, st, this). await_rank st))" by simp
next
  fix py :: pyodide_answers and a this outcome
  show "((py, installPackage_resume a outcome (on_pyimport py) this), (py, Suspended a, this))
          \<in> measure (\<lambda>(py, st, this). await_rank st)"
    by (cases a; cases outcome; cases "on_pyimport py")
       (simp_all add: install_failed_def Let_def)
qed

definition installPackage :: "pyodide_answers \<Rightarrow> package_manager \<Rightarrow> (bool settled \<times> package_manager) option" where
  "installPackage py this = install_run py (installPackage_enter this)"

definition reset_manager :: "package_manager \<Rightarrow> package_manager" where
  "reset_manager this =
     this\<lparr>isInstalled := False, isInstalling := False, installationProgress := idle_progress\<rparr>"

section \<open>The interpreter collaborator\<close>

text \<open>
  The interpreter is not part of the repository: it is a parameter of the model. What the
  executor can observe of it is kept in a \<open>world\<close>: the clock read by
  \<^verbatim>\<open>performance.now()\<close> (in ticks; only interpreter calls take time), the objects bound
  to \<^verbatim>\<open>sys.stdout\<close> and \<^verbatim>\<open>sys.stderr\<close> (the original channel, which is also
  \<^verbatim>\<open>sys.__stdout__\<close>, or an in-memory buffer with its contents), and an observation
  field listing every code text handed to the interpreter.
\<close>

datatype stream = Original | StringIO string

record world =
  now :: int
  sys_stdout :: stream
  sys_stderr :: stream
  py_calls :: "string list"

datatype jsval = Undefined | Null | Num int | Str string | Obj "(string \<times> int) list"

datatype py_outcome = Value jsval | Raises string

text \<open>
  A call either returns a value or throws an error with a message, and leaves a new world;
  \<open>None\<close> is a call that never returns. \<^verbatim>\<open>runPython\<close> and \<^verbatim>\<open>runPythonAsync\<close>
  are two entries of the collaborator.
\<close>

record pyodide =
  py_run :: "string \<Rightarrow> world \<Rightarrow> (py_outcome \<times> world) option"
  py_run_async :: "string \<Rightarrow> world \<Rightarrow> (py_outcome \<times> world) option"

definition runPython :: "pyodide \<Rightarrow> string \<Rightarrow> world \<Rightarrow> (py_outcome \<times> world) option" where
  "runPython py code w =
     (case py_run py code w of
        None \<Rightarrow> None
      | Some (r, w') \<Rightarrow> Some (r, w'\<lparr>py_calls := py_calls w @ [code]\<rparr>))"

definition runPythonAsync :: "pyodide \<Rightarrow> string \<Rightarrow> world \<Rightarrow> (py_outcome \<times> world) option" where
  "runPythonAsync py code w =
     (case py_run_async py code w of
        None \<Rightarrow> None
      | Some (r, w') \<Rightarrow> Some (r, w'\<lparr>py_calls := py_calls w @ [code]\<rparr>))"

definition js_truthy :: "jsval \<Rightarrow> bool" where
  "js_truthy v =
     (case v of Undefined \<Rightarrow> False | Null \<Rightarrow> False | Num n \<Rightarrow> n \<noteq> 0
              | Str s \<Rightarrow> s \<noteq> [] | Obj _ \<Rightarrow> True)"

definition js_or :: "jsval \<Rightarrow> jsval \<Rightarrow> jsval" where
  "js_or a b = (if js_truthy a then a else b)"

section \<open>PyodideExecutor\<close>

text \<open>
  The class \<^verbatim>\<open>PyodideExecutor\<close> of
  \<^verbatim>\<open>src/web-companion/src/services/PyodideExecutor.js\<close>: \<^verbatim>\<open>execute\<close> (lines 160 to
  256) and \<^verbatim>\<open>getMemoryUsage\<close> (lines 359 to 402). Logging is left out.
\<close>

record memory_usage =
  heapSize :: "int option"
  totalObjects :: "int option"
  garbageCount :: "int option"
  available :: bool
  memory_error :: "string option"

record execution_result =
  success :: bool
  output_text :: jsval
  error :: jsval
  executionTime :: int
  memoryUsage :: "memory_usage option"
  result_warnings :: "string list"
  transformationInfo :: "transform_result option"

record executor =
  isInitialized :: bool
  packageInstalled :: bool
  maxExecutionTime :: nat
  packageManager :: package_manager
  importPathResolver :: resolver

definition new_executor :: executor where
  "new_executor =
     \<lparr>isInitialized = False, packageInstalled = False, maxExecutionTime = 30000,
      packageManager = new_package_manager, importPathResolver = new_resolver\<rparr>"

text \<open>The options object: \<open>None\<close> is a property the caller did not give.\<close>

record exec_options =
  opt_timeout :: "nat option"
  opt_captureOutput :: "bool option"
  opt_measurePerformance :: "bool option"

definition no_options :: exec_options where
  "no_options = \<lparr>opt_timeout = None, opt_captureOutput = None, opt_measurePerformance = None\<rparr>"

text \<open>The Python texts the executor submits.\<close>

definition filePatch :: string where
  "filePatch = [CHR 0x0A] @ ''try:'' @ [CHR 0x0A] @ ''    __file__'' @ [CHR 0x0A]
     @ ''except NameError:'' @ [CHR 0x0A] @ ''    __file__ = '<pyodide>'' @ [CHR 0x27, CHR 0x0A]"

definition redirect_script :: string where
  "redirect_script = [CHR 0x0A] @ ''import sys'' @ [CHR 0x0A] @ ''import os'' @ [CHR 0x0A]
     @ ''print(f'' @ [CHR 0x22] @ ''Current working directory: {os.getcwd()}'' @ [CHR 0x22] @ '')''
     @ [CHR 0x0A] @ ''from io import StringIO'' @ [CHR 0x0A]
     @ ''sys.stdout = StringIO()'' @ [CHR 0x0A] @ ''sys.stderr = StringIO()'' @ [CHR 0x0A]
     @ ''            ''"

definition restore_script :: string where
  "restore_script = [CHR 0x0A] @ ''sys.stdout = sys.__stdout__'' @ [CHR 0x0A]
     @ ''sys.stderr = sys.__stderr__'' @ [CHR 0x0A] @ ''            ''"

definition memory_script :: string where
  "memory_script = [CHR 0x0A] @ ''import sys'' @ [CHR 0x0A] @ ''import gc'' @ [CHR 0x0A] @ [CHR 0x0A]
     @ ''# Force garbage collection'' @ [CHR 0x0A] @ ''gc.collect()'' @ [CHR 0x0A] @ [CHR 0x0A]
     @ ''# Get memory info'' @ [CHR 0x0A] @ ''memory_info = {'' @ [CHR 0x0A]
     @ ''    'heap_size': sys.getsizeof([]),'' @ [CHR 0x0A]
     @ ''    'total_objects': len(gc.get_objects()),'' @ [CHR 0x0A]
     @ ''    'garbage_count': len(gc.garbage)'' @ [CHR 0x0A]
     @ ''}'' @ [CHR 0x0A] @ ''memory_info'' @ [CHR 0x0A] @ ''            ''"

text \<open>
  \<^verbatim>\<open>getMemoryUsage\<close>. Reading \<^verbatim>\<open>heap_size\<close> of \<^verbatim>\<open>undefined\<close> or \<^verbatim>\<open>null\<close>
  throws a TypeError, and the \<^verbatim>\<open>catch\<close> block stores its \<^verbatim>\<open>error.message\<close> in an
  unavailable report. That message is the JavaScript engine's text; the wording of V8
  (Chrome, Edge) is taken here. The handle \<^verbatim>\<open>this.pyodide\<close> is set whenever
  \<^verbatim>\<open>isInitialized\<close> is.
\<close>

definition property_read_message :: "string \<Rightarrow> string \<Rightarrow> string" where
  "property_read_message what property =
     ''Cannot read properties of '' @ what @ '' (reading ''
       @ [CHR 0x27] @ property @ [CHR 0x27] @ '')''"

definition memory_unavailable :: "string option \<Rightarrow> memory_usage" where
  "memory_unavailable err =
     \<lparr>heapSize = Some 0, totalObjects = Some 0, garbageCount = Some 0,
      available = False, memory_error = err\<rparr>"

definition getMemoryUsage :: "pyodide \<Rightarrow> executor \<Rightarrow> world \<Rightarrow> (memory_usage \<times> world) option" where
  "getMemoryUsage py this w =
     (if \<not> isInitialized this then Some (memory_unavailable None, w)
      else (case runPythonAsync py memory_script w of
              None \<Rightarrow> None
            | Some (Raises e, w') \<Rightarrow> Some (memory_unavailable (Some e), w')
            | Some (Value (Obj kv), w') \<Rightarrow>
                Some (\<lparr>heapSize = map_of kv ''heap_size'',
                       totalObjects = map_of kv ''total_objects'',
                       garbageCount = map_of kv ''garbage_count'',
                       available = True, memory_error = None\<rparr>, w')
            | Some (Value Undefined, w') \<Rightarrow>
                Some (memory_unavailable
                        (Some (property_read_message ''undefined'' ''heap_size'')), w')
            | Some (Value Null, w') \<Rightarrow>
                Some (memory_unavailable
                        (Some (property_read_message ''null'' ''heap_size'')), w')
            | Some (Value _, w') \<Rightarrow>
                Some (\<lparr>heapSize = None, totalObjects = None, garbageCount = None,
                       available = True, memory_error = None\<rparr>, w')))"

text \<open>The code handed to the interpreter, after the optional rewriting.\<close>

definition rewrite_step :: "executor \<Rightarrow> string \<Rightarrow> string \<times> transform_result option \<times> executor" where
  "rewrite_step this code =
     (if packageInstalled this
      then (let (transformation, resolver') = transformCode (importPathResolver this) code
            in (transformedCode transformation, Some transformation,
                this\<lparr>importPathResolver := resolver'\<rparr>))
      else (code, None, this))"

definition patched_code :: "executor \<Rightarrow> string \<Rightarrow> string" where
  "patched_code this code = filePatch @ [CHR 0x0A] @ fst (rewrite_step this code)"

definition initial_result :: "transform_result option \<Rightarrow> execution_result" where
  "initial_result info =
     \<lparr>success = False, output_text = Str [], error = Null, executionTime = 0,
      memoryUsage = None, result_warnings = [], transformationInfo = info\<rparr>"

text \<open>The \<^verbatim>\<open>catch\<close> block of \<^verbatim>\<open>execute\<close>, entered in the world the failing call left.\<close>

definition execute_catch ::
  "execution_result \<Rightarrow> int \<Rightarrow> string \<Rightarrow> world \<Rightarrow> (execution_result \<times> world) option" where
  "execute_catch res startTime msg w =
     Some (res\<lparr>success := False, error := Str msg, executionTime := now w - startTime\<rparr>, w)"

text \<open>
  The \<^verbatim>\<open>try\<close> block with its \<^verbatim>\<open>catch\<close>: five interpreter calls in a row, any of
  which may throw (then the rest is skipped) or never return.
\<close>

definition execute_try ::
  "pyodide \<Rightarrow> string \<Rightarrow> int \<Rightarrow> execution_result \<Rightarrow> world \<Rightarrow> (execution_result \<times> world) option" where
  "execute_try py patchedCode startTime res w =
     (case runPython py redirect_script w of
        None \<Rightarrow> None
      | Some (Raises e, w1) \<Rightarrow> execute_catch res startTime e w1
      | Some (Value _, w1) \<Rightarrow>
     (let executionStartTime = now w1 in
      case runPython py patchedCode w1 of
        None \<Rightarrow> None
      | Some (Raises e, w2) \<Rightarrow> execute_catch res startTime e w2
      | Some (Value _, w2) \<Rightarrow>
     (let executionEndTime = now w2;
          elapsed = executionEndTime - executionStartTime in
      case runPython py ''sys.stdout.getvalue()'' w2 of
        None \<Rightarrow> None
      | Some (Raises e, w3) \<Rightarrow> execute_catch res startTime e w3
      | Some (Value stdout, w3) \<Rightarrow>
     (case runPython py ''sys.stderr.getvalue()'' w3 of
        None \<Rightarrow> None
      | Some (Raises e, w4) \<Rightarrow> execute_catch res startTime e w4
      | Some (Value stderr, w4) \<Rightarrow>
     (case runPython py restore_script w4 of
        None \<Rightarrow> None
      | Some (Raises e, w5) \<Rightarrow> execute_catch res startTime e w5
      | Some (Value _, w5) \<Rightarrow>
          Some (res\<lparr>success := True, output_text := js_or stdout (Str []),
                    error := js_or stderr Null, executionTime := elapsed\<rparr>, w5))))))"

text \<open>
  \<^verbatim>\<open>execute\<close>. The result is the settled promise with the executor and the world
  afterwards, or \<open>None\<close> when the promise never settles. The \<^verbatim>\<open>timeout\<close> option is
  stored in the options object and not read again.
\<close>

definition execute ::
  "pyodide \<Rightarrow> executor \<Rightarrow> world \<Rightarrow> string \<Rightarrow> exec_options
     \<Rightarrow> (execution_result settled \<times> executor \<times> world) option" where
  "execute py this w code options =
     (if \<not> isInitialized this
      then Some (Rejected ''PyodideExecutor not initialized'', this, w)
      else
       (let (transformed, info, this1) = rewrite_step this code;
            patchedCode = filePatch @ [CHR 0x0A] @ transformed;
            measurePerformance =
              (case opt_measurePerformance options of None \<Rightarrow> True | Some b \<Rightarrow> b);
            startTime = now w
        in case execute_try py patchedCode startTime (initial_result info) w of
             None \<Rightarrow> None
           | Some (res, w1) \<Rightarrow>
               if measurePerformance
               then (case getMemoryUsage py this1 w1 of
                       None \<Rightarrow> None
                     | Some (mem, w2) \<Rightarrow> Some (Fulfilled (res\<lparr>memoryUsage := Some mem\<rparr>), this1, w2))
               else Some (Fulfilled res, this1, w1)))"

section \<open>TestRunner\<close>

text \<open>
  The class \<^verbatim>\<open>TestRunner\<close> of the same file: \<^verbatim>\<open>parseTestResults\<close> (lines 746 to
  788) and \<^verbatim>\<open>parseFallbackResults\<close> (lines 793 to 816).
\<close>

record test_result =
  test_name :: string
  test_status :: string
  duration :: int
  test_output :: string
  test_error :: "string option"
  test_file :: string

text \<open>The loop of \<^verbatim>\<open>parseTestResults\<close> that collects \<^verbatim>\<open>jsonData\<close>.\<close>

fun collect_json :: "string list \<Rightarrow> bool \<Rightarrow> string \<Rightarrow> string" where
  "collect_json [] inResults jsonData = jsonData"
| "collect_json (line # rest) inResults jsonData =
     (if line = ''TEST_RESULTS_START'' then collect_json rest True jsonData
      else if line = ''TEST_RESULTS_END'' then jsonData
      else if inResults then collect_json rest inResults (jsonData @ line)
      else collect_json rest inResults jsonData)"

text \<open>The loop of \<^verbatim>\<open>parseFallbackResults\<close>; \<open>results\<close> is the array being filled.\<close>

fun fallback_loop :: "string list \<Rightarrow> string \<Rightarrow> test_result list \<Rightarrow> test_result list" where
  "fallback_loop [] fileName results = results"
| "fallback_loop (line # rest) fileName results =
     (if str_includes line ''::'' \<and>
         (str_includes line ''PASSED'' \<or> str_includes line ''FAILED'' \<or> str_includes line ''ERROR'')
      then (let parts = str_split line ''::'';
                testName = hd (str_split (last parts) '' '');
                st = (if str_includes line ''PASSED'' then ''passed''
                      else if str_includes line ''FAILED'' then ''failed'' else ''error'')
            in fallback_loop rest fileName
                 (results @ [\<lparr>test_name = testName, test_status = st, duration = 0,
                              test_output = line,
                              test_error = (if st \<noteq> ''passed'' then Some line else None),
                              test_file = fileName\<rparr>]))
      else fallback_loop rest fileName results)"

definition parseFallbackResults :: "string \<Rightarrow> string \<Rightarrow> test_result list" where
  "parseFallbackResults out fileName = fallback_loop (str_split out [CHR 0x0A]) fileName []"

text \<open>
  \<^verbatim>\<open>parseTestResults\<close>. \<^verbatim>\<open>JSON.parse\<close> followed by \<^verbatim>\<open>map\<close> is a parameter: it
  yields the parsed list, or \<open>None\<close> when it throws, which the \<^verbatim>\<open>catch\<close> block answers
  with a single \<^verbatim>\<open>parse_error\<close> entry.
\<close>

definition parseTestResults ::
  "(string \<Rightarrow> test_result list option) \<Rightarrow> string \<Rightarrow> string \<Rightarrow> test_result list" where
  "parseTestResults json_parse out fileName =
     (let jsonData = collect_json (str_split out [CHR 0x0A]) False []
      in if jsonData \<noteq> []
         then (case json_parse jsonData of
                 Some parsed \<Rightarrow> map (\<lambda>r. r\<lparr>test_file := fileName\<rparr>) parsed
               | None \<Rightarrow> [\<lparr>test_name = ''parse_error'', test_status = ''error'', duration = 0,
                            test_output = out, test_error = Some ''Failed to parse test results'',
                            test_file = fileName\<rparr>])
         else parseFallbackResults out fileName)"

section \<open>Concrete inputs\<close>

text \<open>Interpreter answers for an installation that succeeds, and for one without network.\<close>

definition answers_ok :: pyodide_answers where
  "answers_ok =
     \<lparr>on_loadPackage = Some (Fulfilled ()), on_pyimport = Fulfilled (),
      on_install = Some (Fulfilled ()), on_verify_import = Some (Fulfilled ()),
      on_verify_chapters = Some (Fulfilled ())\<rparr>"

definition answers_offline :: pyodide_answers where
  "answers_offline = answers_ok\<lparr>on_loadPackage := Some (Rejected ''Failed to fetch'')\<rparr>"

text \<open>
  A small interpreter: it implements the executor's own scripts as their Python text says,
  and knows three user programs, one that divides by zero after 7 ticks, one that loops
  forever and one that prints. The redirection script takes 5 ticks.
\<close>

definition write_stream :: "string \<Rightarrow> stream \<Rightarrow> stream" where
  "write_stream s st = (case st of Original \<Rightarrow> Original | StringIO b \<Rightarrow> StringIO (b @ s))"

definition getvalue :: "stream \<Rightarrow> world \<Rightarrow> (py_outcome \<times> world) option" where
  "getvalue st w =
     (case st of
        StringIO b \<Rightarrow> Some (Value (Str b), w\<lparr>now := now w + 1\<rparr>)
      | Original \<Rightarrow> Some (Raises ''AttributeError: object has no attribute getvalue'',
                          w\<lparr>now := now w + 1\<rparr>))"

definition demo_run :: "string \<Rightarrow> world \<Rightarrow> (py_outcome \<times> world) option" where
  "demo_run code w =
     (if code = redirect_script
      then Some (Value Undefined,
                 w\<lparr>now := now w + 5, sys_stdout := StringIO [], sys_stderr := StringIO []\<rparr>)
      else if code = ''sys.stdout.getvalue()'' then getvalue (sys_stdout w) w
      else if code = ''sys.stderr.getvalue()'' then getvalue (sys_stderr w) w
      else if code = restore_script
      then Some (Value Undefined,
                 w\<lparr>now := now w + 1, sys_stdout := Original, sys_stderr := Original\<rparr>)
      else if code = filePatch @ [CHR 0x0A] @ ''1/0''
      then Some (Raises ''ZeroDivisionError: division by zero'', w\<lparr>now := now w + 7\<rparr>)
      else if code = filePatch @ [CHR 0x0A] @ ''while True: pass'' then None
      else if code = filePatch @ [CHR 0x0A] @ ''print(42)''
      then Some (Value Undefined,
                 w\<lparr>now := now w + 3, sys_stdout := write_stream (''42'' @ [CHR 0x0A]) (sys_stdout w)\<rparr>)
      else Some (Value Undefined, w\<lparr>now := now w + 1\<rparr>))"

definition demo_run_async :: "string \<Rightarrow> world \<Rightarrow> (py_outcome \<times> world) option" where
  "demo_run_async code w =
     (if code = memory_script
      then Some (Value (Obj [(''heap_size'', 56), (''total_objects'', 12000), (''garbage_count'', 0)]),
                 w\<lparr>now := now w + 2\<rparr>)
      else demo_run code w)"

definition demo_pyodide :: pyodide where
  "demo_pyodide = \<lparr>py_run = demo_run, py_run_async = demo_run_async\<rparr>"

definition world0 :: world where
  "world0 = \<lparr>now = 0, sys_stdout = Original, sys_stderr = Original, py_calls = []\<rparr>"

text \<open>An executor after \<^verbatim>\<open>initialize\<close>, in the case where the package could not be installed.\<close>

definition ready_executor :: executor where
  "ready_executor = new_executor\<lparr>isInitialized := True\<rparr>"

text \<open>
  Inputs for the import rewriter: the example line with its expected rewriting, a line
  that already imports from the installed package and mentions a relative import in a
  comment, a line with that relative import, and a text of three lines.
\<close>

definition example_line :: string where
  "example_line = ''from src.chapter_01.dynamic_array import DynamicArray''"

definition example_rewritten :: string where
  "example_rewritten =
     ''from mastering_performant_code.chapter_01.dynamic_array import DynamicArray''"

definition example_entry :: transformation where
  "example_entry =
     \<lparr>t_pattern = ''/from'' @ [CHR 0x5C] @ ''s+src'' @ [CHR 0x5C] @ ''./g'',
      t_replacement = ''from mastering_performant_code.'', t_count = 1,
      t_type = ''src_transformation''\<rparr>"

definition guarded_line :: string where
  "guarded_line =
     ''from mastering_performant_code.chapter_09.btree import BTree  # was: from btree import BTree''"

definition plain_line :: string where
  "plain_line = ''from btree import BTree''"

definition plain_rewritten :: string where
  "plain_rewritten = ''from mastering_performant_code.chapter_09.btree import BTree''"

definition three_lines :: string where
  "three_lines = guarded_line @ [CHR 0x0A] @ plain_line @ [CHR 0x0A] @ guarded_line"

definition three_lines_rewritten :: string where
  "three_lines_rewritten = guarded_line @ [CHR 0x0A] @ plain_rewritten @ [CHR 0x0A] @ guarded_line"

text \<open>
  The resolver after it has tested \<open>guarded_line\<close> last: the regexp of the rule for
  \<^verbatim>\<open>from btree\<close> (entry 71 of the second table) has its \<^verbatim>\<open>lastIndex\<close> at 79, the end
  of its match in that line.
\<close>

definition set_lastIndex :: "nat \<Rightarrow> nat \<Rightarrow> rule list \<Rightarrow> rule list" where
  "set_lastIndex i v rs = rs[i := (rs ! i)\<lparr>pattern := (pattern (rs ! i))\<lparr>lastIndex := v\<rparr>\<rparr>]"

definition stale_resolver :: resolver where
  "stale_resolver =
     new_resolver\<lparr>relativeImportMappings := set_lastIndex 71 79 relativeImportMappings_init\<rparr>"

text \<open>The two shapes of result met below: nothing rewritten, one relative import rewritten.\<close>

definition untouched :: "string \<Rightarrow> transform_result" where
  "untouched code =
     \<lparr>transformedCode = code,
      diagnostics = \<lparr>transformations = [],
                      warnings = [''No transformations were applied''], errors = []\<rparr>\<rparr>"

definition rewritten_once :: "string \<Rightarrow> transform_result" where
  "rewritten_once code =
     \<lparr>transformedCode = code,
      diagnostics =
        \<lparr>transformations =
           [\<lparr>t_pattern = ''relativeImportMappings'', t_replacement = ''chapter-specific'',
             t_count = 1, t_type = ''relative_import_mapping''\<rparr>],
         warnings = [], errors = []\<rparr>\<rparr>"

text \<open>
  A resolver whose tables are the constructor's up to the \<^verbatim>\<open>lastIndex\<close> of their
  regexps: every state the resolver can be in.
\<close>

definition unstate :: "rule \<Rightarrow> rule" where
  "unstate r = r\<lparr>pattern := (pattern r)\<lparr>lastIndex := 0\<rparr>\<rparr>"

definition tables_intact :: "resolver \<Rightarrow> bool" where
  "tables_intact this =
     (map unstate (importTransformations this) = importTransformations_init \<and>
      map unstate (relativeImportMappings this) = relativeImportMappings_init)"

section \<open>The fallback parser as the specification words it\<close>

text \<open>
  A line has the shape of a test report when it contains \<^verbatim>\<open>::\<close> together with one of
  \<^verbatim>\<open>PASSED\<close>, \<^verbatim>\<open>FAILED\<close>, \<^verbatim>\<open>ERROR\<close>. The outcome recovered from such a line is
  named by the text after its last \<^verbatim>\<open>::\<close>, up to the first blank.
\<close>

definition report_shaped :: "string \<Rightarrow> bool" where
  "report_shaped line =
     (str_includes line ''::'' \<and>
      (str_includes line ''PASSED'' \<or> str_includes line ''FAILED'' \<or> str_includes line ''ERROR''))"

definition reported_status :: "string \<Rightarrow> string" where
  "reported_status line =
     (if str_includes line ''PASSED'' then ''passed''
      else if str_includes line ''FAILED'' then ''failed'' else ''error'')"

definition recovered_outcome :: "string \<Rightarrow> string \<Rightarrow> test_result" where
  "recovered_outcome fileName line =
     \<lparr>test_name = hd (str_split (last (str_split line ''::'')) '' ''),
      test_status = reported_status line, duration = 0, test_output = line,
      test_error = (if reported_status line = ''passed'' then None else Some line),
      test_file = fileName\<rparr>"

section \<open>Observations used in the statements\<close>

text \<open>A call is in flight while the guard flag is set and the package is not installed.\<close>

definition in_flight :: "package_manager \<Rightarrow> bool" where
  "in_flight this = (isInstalling this \<and> \<not> isInstalled this)"

text \<open>The result a settled call of \<^verbatim>\<open>execute\<close> resolved to, and the world it left.\<close>

definition result_of ::
  "(execution_result settled \<times> executor \<times> world) option \<Rightarrow> execution_result option" where
  "result_of x = (case x of Some (Fulfilled r, _, _) \<Rightarrow> Some r | _ \<Rightarrow> None)"

definition world_after ::
  "(execution_result settled \<times> executor \<times> world) option \<Rightarrow> world option" where
  "world_after x = (case x of Some (_, _, w) \<Rightarrow> Some w | None \<Rightarrow> None)"

text \<open>The time one interpreter call takes on the clock.\<close>

definition call_duration :: "pyodide \<Rightarrow> string \<Rightarrow> world \<Rightarrow> int option" where
  "call_duration py code w =
     (case runPython py code w of Some (_, w') \<Rightarrow> Some (now w' - now w) | None \<Rightarrow> None)"

text \<open>The world the small interpreter leaves after the redirection script, from \<open>world0\<close>.\<close>

definition redirected0 :: world where
  "redirected0 =
     \<lparr>now = 5, sys_stdout = StringIO [], sys_stderr = StringIO [], py_calls = [redirect_script]\<rparr>"

text \<open>
  The five interpreter calls of the \<^verbatim>\<open>try\<close> block of \<^verbatim>\<open>execute\<close>, in the order they
  are made.
\<close>

definition try_block_calls :: "executor \<Rightarrow> string \<Rightarrow> string list" where
  "try_block_calls this code =
     [redirect_script, patched_code this code, ''sys.stdout.getvalue()'',
      ''sys.stderr.getvalue()'', restore_script]"

text \<open>
  A sequence of calls made one after the other until one raises. \<open>first_raise\<close> is the
  message of the first call that raises with the world it leaves, \<open>None\<close> when no call
  raises. \<open>calls_end\<close> is the world in which the sequence stops, after the call that
  raised or after the last call; it is \<open>None\<close> when a call that is made never returns.
\<close>

fun first_raise :: "pyodide \<Rightarrow> string list \<Rightarrow> world \<Rightarrow> (string \<times> world) option" where
  "first_raise py [] w = None"
| "first_raise py (c # cs) w =
     (case runPython py c w of
        None \<Rightarrow> None
      | Some (Raises e, w') \<Rightarrow> Some (e, w')
      | Some (Value v, w') \<Rightarrow> first_raise py cs w')"

fun calls_end :: "pyodide \<Rightarrow> string list \<Rightarrow> world \<Rightarrow> world option" where
  "calls_end py [] w = Some w"
| "calls_end py (c # cs) w =
     (case runPython py c w of
        None \<Rightarrow> None
      | Some (Raises e, w') \<Rightarrow> Some w'
      | Some (Value v, w') \<Rightarrow> calls_end py cs w')"

text \<open>
  Every interpreter call that \<^verbatim>\<open>execute\<close> makes on this input returns or raises: the
  calls of the \<^verbatim>\<open>try\<close> block, and then the memory script unless the options switch
  \<^verbatim>\<open>measurePerformance\<close> off.
\<close>

definition measures_performance :: "exec_options \<Rightarrow> bool" where
  "measures_performance options =
     (case opt_measurePerformance options of None \<Rightarrow> True | Some b \<Rightarrow> b)"

definition calls_return :: "pyodide \<Rightarrow> executor \<Rightarrow> world \<Rightarrow> string \<Rightarrow> exec_options \<Rightarrow> bool" where
  "calls_return py this w code options =
     (case calls_end py (try_block_calls this code) w of
        None \<Rightarrow> False
      | Some wx \<Rightarrow> \<not> measures_performance options \<or> runPythonAsync py memory_script wx \<noteq> None)"

text \<open>
  The small interpreter with one more user program, which binds \<^verbatim>\<open>sys.stdout\<close> back to
  the original channel itself; \<^verbatim>\<open>sys.stdout.getvalue()\<close> then raises.
\<close>

definition rebinding_program :: string where
  "rebinding_program = ''import sys; sys.stdout = sys.__stdout__''"

definition rebinding_run :: "string \<Rightarrow> world \<Rightarrow> (py_outcome \<times> world) option" where
  "rebinding_run code w =
     (if code = filePatch @ [CHR 0x0A] @ rebinding_program
      then Some (Value Undefined, w\<lparr>now := now w + 2, sys_stdout := Original\<rparr>)
      else demo_run code w)"

definition rebinding_pyodide :: pyodide where
  "rebinding_pyodide = \<lparr>py_run = rebinding_run, py_run_async = demo_run_async\<rparr>"

text \<open>
  The small interpreter with a fault: the one code text \<open>bad\<close> raises, whatever the world.
\<close>

definition faulty_run :: "string \<Rightarrow> string \<Rightarrow> world \<Rightarrow> (py_outcome \<times> world) option" where
  "faulty_run bad code w =
     (if code = bad
      then Some (Raises ''RuntimeError: interpreter fault'', w\<lparr>now := now w + 1\<rparr>)
      else demo_run code w)"

definition faulty_pyodide :: "string \<Rightarrow> pyodide" where
  "faulty_pyodide bad = \<lparr>py_run = faulty_run bad, py_run_async = demo_run_async\<rparr>"

text \<open>Captured output of a test run whose harness stopped before printing its markers.\<close>

definition crashed_output :: string where
  "crashed_output =
     ''tests/test_a.py::test_one PASSED'' @ [CHR 0x0A]
     @ ''Traceback (most recent call last):'' @ [CHR 0x0A]
     @ ''tests/test_a.py::TestX::test_two FAILED - boom''"

section \<open>Properties of the package installer\<close>

lemma answer_cases:
  obtains "x = None" | "x = Some (Fulfilled ())" | e where "x = Some (Rejected e)"
proof (cases x)
  case None
  then show ?thesis using that by simp
next
  case (Some a)
  then show ?thesis using that by (cases a) auto
qed

lemma pyimport_cases:
  obtains "(x :: unit settled) = Fulfilled ()" | e where "x = Rejected e"
  by (cases x) auto

lemma resume_keeps_flags:
  "installPackage_resume a outcome pyi this = (st, this1) \<Longrightarrow>
     (case st of
        Returned r \<Rightarrow> (r = Fulfilled True \<longrightarrow> isInstalled this1) \<and> r \<noteq> Fulfilled False
      | Suspended a' \<Rightarrow> isInstalling this1 = isInstalling this \<and> isInstalled this1 = isInstalled this)"
  by (cases a; cases outcome; cases pyi)
     (auto simp: install_failed_def updateProgress_def request_def Let_def)

lemma install_run_true_installed:
  "install_run py (st, this) = Some (Fulfilled True, this') \<Longrightarrow>
   (\<forall>r. st = Returned r \<longrightarrow> r = Fulfilled True \<longrightarrow> isInstalled this) \<Longrightarrow> isInstalled this'"
proof (induction py "(st, this)" arbitrary: st this rule: install_run.induct)
  case (1 py r this)
  then show ?case by auto
next
  case (2 py a this)
  from "2.prems"(1) obtain outcome where o: "answer_at py a = Some outcome"
    and run: "install_run py (installPackage_resume a outcome (on_pyimport py) this)
                = Some (Fulfilled True, this')"
    by (auto split: option.splits)
  obtain st1 this1 where r: "installPackage_resume a outcome (on_pyimport py) this = (st1, this1)"
    by (cases "installPackage_resume a outcome (on_pyimport py) this")
  have "\<forall>r. st1 = Returned r \<longrightarrow> r = Fulfilled True \<longrightarrow> isInstalled this1"
    using resume_keeps_flags[OF r] by auto
  with "2.hyps"[OF o r] run r show ?case by simp
qed

lemma installPackage_true_installed:
  assumes "installPackage py this = Some (Fulfilled True, this')"
  shows "isInstalled this'"
proof -
  obtain st this0 where e: "installPackage_enter this = (st, this0)"
    by (cases "installPackage_enter this")
  have "\<forall>r. st = Returned r \<longrightarrow> r = Fulfilled True \<longrightarrow> isInstalled this0"
    using e by (auto simp: installPackage_enter_def split: if_splits)
  with assms e show ?thesis
    using install_run_true_installed[of py st this0 this'] by (simp add: installPackage_def)
qed

lemmas install_defs =
  installPackage_def installPackage_enter_def install_failed_def new_package_manager_def
  idle_progress_def answers_ok_def answers_offline_def answer_at_def updateProgress_def
  request_def Let_def

lemma demo_install_ok:
  "installPackage answers_ok new_package_manager =
     Some (Fulfilled True,
       \<lparr>isInstalled = True, isInstalling = False,
        installationProgress = \<lparr>status = ''complete'', percentage = 100,
                                  message = ''Package installed successfully!''\<rparr>,
        progress_events =
          [\<lparr>status = ''starting'', percentage = 0, message = ''Starting package installation...''\<rparr>,
           \<lparr>status = ''loading_micropip'', percentage = 10, message = ''Loading micropip...''\<rparr>,
           \<lparr>status = ''downloading'', percentage = 30, message = ''Downloading package from GitHub...''\<rparr>,
           \<lparr>status = ''verifying'', percentage = 90, message = ''Verifying package installation...''\<rparr>,
           \<lparr>status = ''complete'', percentage = 100, message = ''Package installed successfully!''\<rparr>],
        requests = [''loadPackage'', ''micropip.install'', ''runPythonAsync'', ''runPythonAsync'']\<rparr>)"
  by (simp add: install_defs)

lemma demo_install_offline:
  "installPackage answers_offline new_package_manager =
     Some (Rejected ''Failed to fetch'',
       \<lparr>isInstalled = False, isInstalling = False,
        installationProgress = \<lparr>status = ''error'', percentage = 0,
                                  message = ''Installation failed: Failed to fetch''\<rparr>,
        progress_events =
          [\<lparr>status = ''starting'', percentage = 0, message = ''Starting package installation...''\<rparr>,
           \<lparr>status = ''loading_micropip'', percentage = 10, message = ''Loading micropip...''\<rparr>,
           \<lparr>status = ''error'', percentage = 0, message = ''Installation failed: Failed to fetch''\<rparr>],
        requests = [''loadPackage'']\<rparr>)"
  by (simp add: install_defs)

text \<open>
  Claim C4. Once a call of \<^verbatim>\<open>installPackage\<close> has returned true, every later call returns
  true before any \<^verbatim>\<open>await\<close> and leaves the whole state as it is, the list of interpreter
  requests included, whatever the interpreter would answer. A call suspended at an
  \<^verbatim>\<open>await\<close> is in flight, it stays in flight across each resumption that suspends
  again, and a call made while another is in flight returns false before any \<^verbatim>\<open>await\<close>
  and changes nothing.
\<close>

theorem installPackage_idempotent_and_exclusive:
  "(installPackage py this = Some (Fulfilled True, this') \<longrightarrow>
      installPackage_enter this' = (Returned (Fulfilled True), this') \<and>
      installPackage py' this' = Some (Fulfilled True, this')) \<and>
   (installPackage_enter this = (Suspended a, busy) \<longrightarrow> in_flight busy) \<and>
   (in_flight busy \<and> installPackage_resume a outcome pyi busy = (Suspended a', busy') \<longrightarrow>
      in_flight busy') \<and>
   (in_flight busy \<longrightarrow>
      installPackage_enter busy = (Returned (Fulfilled False), busy) \<and>
      installPackage py' busy = Some (Fulfilled False, busy))"
proof (intro conjI impI)
  assume "installPackage py this = Some (Fulfilled True, this')"
  then have "isInstalled this'" by (rule installPackage_true_installed)
  then show "installPackage_enter this' = (Returned (Fulfilled True), this')"
    and "installPackage py' this' = Some (Fulfilled True, this')"
    by (simp_all add: installPackage_def installPackage_enter_def)
next
  assume "installPackage_enter this = (Suspended a, busy)"
  then show "in_flight busy"
    by (auto simp: in_flight_def installPackage_enter_def updateProgress_def request_def Let_def
        split: if_splits)
next
  assume "in_flight busy \<and> installPackage_resume a outcome pyi busy = (Suspended a', busy')"
  then show "in_flight busy'"
    using resume_keeps_flags[of a outcome pyi busy "Suspended a'" busy']
    by (simp add: in_flight_def)
next
  assume "in_flight busy"
  then show "installPackage_enter busy = (Returned (Fulfilled False), busy)"
    and "installPackage py' busy = Some (Fulfilled False, busy)"
    by (simp_all add: in_flight_def installPackage_def installPackage_enter_def)
qed

text \<open>
  Witness for C4: a new manager installs with success and a second call, made without
  network, still returns true; a call made after the first or the second suspension of
  another call returns false.
\<close>

theorem installPackage_idempotent_and_exclusive_witness:
  "(\<exists>done. installPackage answers_ok new_package_manager = Some (Fulfilled True, done) \<and>
      installPackage answers_offline done = Some (Fulfilled True, done)) \<and>
   (\<exists>busy busy'.
      installPackage_enter new_package_manager = (Suspended Await_loadPackage, busy) \<and>
      in_flight busy \<and>
      installPackage_resume Await_loadPackage (Fulfilled ()) (Fulfilled ()) busy
        = (Suspended Await_install, busy') \<and>
      in_flight busy' \<and>
      installPackage answers_ok busy' = Some (Fulfilled False, busy'))"
proof -
  obtain d where d: "installPackage answers_ok new_package_manager = Some (Fulfilled True, d)"
    using demo_install_ok by blast
  obtain b where b: "installPackage_enter new_package_manager = (Suspended Await_loadPackage, b)"
    by (simp add: installPackage_enter_def new_package_manager_def)
  obtain b' where b': "installPackage_resume Await_loadPackage (Fulfilled ()) (Fulfilled ()) b
                         = (Suspended Await_install, b')"
    by (simp add: Let_def)
  note inst = installPackage_idempotent_and_exclusive
    [of answers_ok new_package_manager d _ Await_loadPackage b "Fulfilled ()" "Fulfilled ()"
        Await_install b']
  have fb: "in_flight b" using b inst by blast
  have fb': "in_flight b'" using fb b' inst by blast
  have "installPackage answers_offline d = Some (Fulfilled True, d)"
    using d installPackage_idempotent_and_exclusive [of answers_ok new_package_manager d] by blast
  moreover have "installPackage answers_ok b' = Some (Fulfilled False, b')"
    using fb' installPackage_idempotent_and_exclusive [of _ _ _ answers_ok _ b'] by blast
  ultimately show ?thesis using d b b' fb fb' by blast
qed

text \<open>
  Counterexample for C2. Without network the call is rejected after the reports
  \<open>starting 0\<close> and \<open>loading_micropip 10\<close>, and the third report, the one of the Error
  transition itself, already carries percentage 0: the reset does not wait for a retry.
\<close>

theorem error_transition_resets_percentage_counterexample:
  "map_option fst (installPackage answers_offline new_package_manager)
     = Some (Rejected ''Failed to fetch'') \<and>
   map_option (map percentage \<circ> progress_events \<circ> snd)
     (installPackage answers_offline new_package_manager) = Some [0, 10, 0] \<and>
   map_option (map status \<circ> progress_events \<circ> snd)
     (installPackage answers_offline new_package_manager)
     = Some [''starting'', ''loading_micropip'', ''error'']"
  by (simp add: demo_install_offline)

text \<open>
  Claim C2, amended. One run of \<^verbatim>\<open>installPackage\<close> that starts from a manager neither
  installed nor installing appends its reports to the earlier ones; the percentages
  reported under the statuses other than \<open>error\<close> never decrease. A run that succeeds
  reports 0, 10, 30, 90, 100. A run that fails reports a prefix of 0, 10, 30, 90 and then,
  at the Error transition itself, percentage 0 with the failure message; the snapshot
  then shows that report, and the manager is ready for a retry, which starts at 0 again.
\<close>

theorem progress_of_one_run:
  assumes "\<not> isInstalled this" and "\<not> isInstalling this"
    and "installPackage py this = Some (r, this')"
  shows "\<exists>evs. progress_events this' = progress_events this @ evs
     \<and> sorted (map percentage (filter (\<lambda>p. status p \<noteq> ''error'') evs))
     \<and> (case r of
           Fulfilled b \<Rightarrow>
             b \<and> map percentage evs = [0, 10, 30, 90, 100] \<and> ''error'' \<notin> set (map status evs)
         | Rejected e \<Rightarrow>
             map percentage evs \<in> {[0, 10, 0], [0, 10, 30, 0], [0, 10, 30, 90, 0]}
             \<and> last evs = \<lparr>status = ''error'', percentage = 0,
                            message = ''Installation failed: '' @ e\<rparr>
             \<and> installationProgress this' = last evs
             \<and> \<not> isInstalled this' \<and> \<not> isInstalling this')"
proof -
  note defs = installPackage_def installPackage_enter_def install_failed_def answer_at_def
    updateProgress_def request_def Let_def
  consider "on_loadPackage py = None"
    | e where "on_loadPackage py = Some (Rejected e)"
    | "on_loadPackage py = Some (Fulfilled ())" "\<exists>e. on_pyimport py = Rejected e"
    | "on_loadPackage py = Some (Fulfilled ())" "on_pyimport py = Fulfilled ()"
      "on_install py = None"
    | e where "on_loadPackage py = Some (Fulfilled ())" "on_pyimport py = Fulfilled ()"
      "on_install py = Some (Rejected e)"
    | "on_loadPackage py = Some (Fulfilled ())" "on_pyimport py = Fulfilled ()"
      "on_install py = Some (Fulfilled ())" "on_verify_import py = None"
    | e where "on_loadPackage py = Some (Fulfilled ())" "on_pyimport py = Fulfilled ()"
      "on_install py = Some (Fulfilled ())" "on_verify_import py = Some (Rejected e)"
    | "on_loadPackage py = Some (Fulfilled ())" "on_pyimport py = Fulfilled ()"
      "on_install py = Some (Fulfilled ())" "on_verify_import py = Some (Fulfilled ())"
      "on_verify_chapters py = None"
    | e where "on_loadPackage py = Some (Fulfilled ())" "on_pyimport py = Fulfilled ()"
      "on_install py = Some (Fulfilled ())" "on_verify_import py = Some (Fulfilled ())"
      "on_verify_chapters py = Some (Rejected e)"
    | "on_loadPackage py = Some (Fulfilled ())" "on_pyimport py = Fulfilled ()"
      "on_install py = Some (Fulfilled ())" "on_verify_import py = Some (Fulfilled ())"
      "on_verify_chapters py = Some (Fulfilled ())"
    by (cases "on_loadPackage py" rule: answer_cases;
        cases "on_pyimport py" rule: pyimport_cases;
        cases "on_install py" rule: answer_cases;
        cases "on_verify_import py" rule: answer_cases;
        cases "on_verify_chapters py" rule: answer_cases) blast+
  then show ?thesis
    using assms by cases (auto simp: defs)
qed

text \<open>Witness for the amended C2: the run without network, from a new manager.\<close>

theorem progress_of_one_run_witness:
  "\<not> isInstalled new_package_manager \<and> \<not> isInstalling new_package_manager \<and>
   (\<exists>this' evs.
      installPackage answers_offline new_package_manager = Some (Rejected ''Failed to fetch'', this')
      \<and> progress_events this' = progress_events new_package_manager @ evs
      \<and> map percentage evs \<in> {[0, 10, 0], [0, 10, 30, 0], [0, 10, 30, 90, 0]}
      \<and> percentage (installationProgress this') = 0)"
proof -
  have a: "\<not> isInstalled new_package_manager" and b: "\<not> isInstalling new_package_manager"
    by (simp_all add: new_package_manager_def)
  obtain t where t: "installPackage answers_offline new_package_manager
                       = Some (Rejected ''Failed to fetch'', t)"
    using demo_install_offline by blast
  from progress_of_one_run [OF a b t] a b t show ?thesis by force
qed

section \<open>Properties of the executor\<close>

lemmas demo_defs =
  execute_def execute_try_def execute_catch_def rewrite_step_def initial_result_def
  getMemoryUsage_def memory_unavailable_def runPython_def runPythonAsync_def
  demo_pyodide_def demo_run_def demo_run_async_def getvalue_def write_stream_def
  ready_executor_def new_executor_def world0_def no_options_def
  redirect_script_def restore_script_def memory_script_def filePatch_def
  js_or_def js_truthy_def Let_def

lemma demo_division:
  "execute demo_pyodide ready_executor world0 ''1/0'' no_options =
     Some (Fulfilled
            \<lparr>success = False, output_text = Str [],
             error = Str ''ZeroDivisionError: division by zero'', executionTime = 12,
             memoryUsage = Some \<lparr>heapSize = Some 56, totalObjects = Some 12000,
                                 garbageCount = Some 0, available = True, memory_error = None\<rparr>,
             result_warnings = [], transformationInfo = None\<rparr>,
           ready_executor,
           \<lparr>now = 14, sys_stdout = StringIO [], sys_stderr = StringIO [],
            py_calls = [redirect_script, filePatch @ [CHR 0x0A] @ ''1/0'', memory_script]\<rparr>)"
  by (simp add: demo_defs)

lemma demo_print:
  "execute demo_pyodide ready_executor world0 ''print(42)'' no_options =
     Some (Fulfilled
            \<lparr>success = True, output_text = Str (''42'' @ [CHR 0x0A]),
             error = Null, executionTime = 3,
             memoryUsage = Some \<lparr>heapSize = Some 56, totalObjects = Some 12000,
                                 garbageCount = Some 0, available = True, memory_error = None\<rparr>,
             result_warnings = [], transformationInfo = None\<rparr>,
           ready_executor,
           \<lparr>now = 13, sys_stdout = Original, sys_stderr = Original,
            py_calls = [redirect_script, filePatch @ [CHR 0x0A] @ ''print(42)'',
                        ''sys.stdout.getvalue()'', ''sys.stderr.getvalue()'', restore_script,
                        memory_script]\<rparr>)"
  by (simp add: demo_defs)

lemma demo_loop:
  "execute demo_pyodide ready_executor world0 ''while True: pass'' no_options = None"
  by (simp add: demo_defs)

lemma demo_redirect:
  "runPython demo_pyodide redirect_script world0 = Some (Value Undefined, redirected0)"
  by (simp add: redirected0_def demo_defs)

lemma demo_division_call:
  "runPython demo_pyodide (patched_code ready_executor ''1/0'') redirected0 =
     Some (Raises ''ZeroDivisionError: division by zero'',
           redirected0\<lparr>now := 12, py_calls := [redirect_script, filePatch @ [CHR 0x0A] @ ''1/0'']\<rparr>)"
  by (simp add: patched_code_def redirected0_def demo_defs)

lemma demo_print_call:
  "runPython demo_pyodide (patched_code ready_executor ''print(42)'') redirected0 =
     Some (Value Undefined,
           redirected0\<lparr>now := 8, sys_stdout := StringIO (''42'' @ [CHR 0x0A]),
                        py_calls := [redirect_script, filePatch @ [CHR 0x0A] @ ''print(42)'']\<rparr>)"
  by (simp add: patched_code_def redirected0_def demo_defs)

lemmas run_defs = rebinding_pyodide_def rebinding_run_def rebinding_program_def
  faulty_pyodide_def faulty_run_def try_block_calls_def patched_code_def
  calls_return_def measures_performance_def

lemma ready_initialized: "isInitialized ready_executor"
  by (simp add: ready_executor_def new_executor_def)

lemma demo_print_no_raise:
  "first_raise demo_pyodide (try_block_calls ready_executor ''print(42)'') world0 = None"
  by (simp add: run_defs demo_defs)

lemma raise_runs:
  "map_option fst (first_raise demo_pyodide (try_block_calls ready_executor ''1/0'') world0)
     = Some ''ZeroDivisionError: division by zero''"
  "map_option (now \<circ> snd)
     (first_raise demo_pyodide (try_block_calls ready_executor ''1/0'') world0) = Some 12"
  "map_option fst
     (first_raise rebinding_pyodide (try_block_calls ready_executor rebinding_program) world0)
     = Some ''AttributeError: object has no attribute getvalue''"
  "map_option (now \<circ> snd)
     (first_raise rebinding_pyodide (try_block_calls ready_executor rebinding_program) world0)
     = Some 8"
  "map_option (now \<circ> snd)
     (first_raise (faulty_pyodide redirect_script)
        (try_block_calls ready_executor ''print(42)'') world0) = Some 1"
  "map_option (now \<circ> snd)
     (first_raise (faulty_pyodide ''sys.stderr.getvalue()'')
        (try_block_calls ready_executor ''print(42)'') world0) = Some 10"
  "map_option (now \<circ> snd)
     (first_raise (faulty_pyodide restore_script)
        (try_block_calls ready_executor ''print(42)'') world0) = Some 11"
  by (simp_all add: run_defs demo_defs)

lemma resolved_runs:
  "\<exists>r t w'. execute rebinding_pyodide ready_executor world0 rebinding_program no_options
      = Some (Fulfilled r, t, w')"
  "\<exists>r t w'. execute (faulty_pyodide redirect_script) ready_executor world0 ''print(42)'' no_options
      = Some (Fulfilled r, t, w')"
  "\<exists>r t w'. execute (faulty_pyodide ''sys.stderr.getvalue()'') ready_executor world0
      ''print(42)'' no_options = Some (Fulfilled r, t, w')"
  "\<exists>r t w'. execute (faulty_pyodide restore_script) ready_executor world0 ''print(42)'' no_options
      = Some (Fulfilled r, t, w')"
  by (simp_all add: run_defs demo_defs)

text \<open>
  The \<^verbatim>\<open>try\<close> block and the sequence of its five calls: the block never returns exactly
  when a call that is made never returns; it ends in the world where the sequence stops;
  when a call raises, the \<^verbatim>\<open>catch\<close> block reports that call's message and the time
  since \<open>t0\<close>; when none raises, the block reports success and the time of the run call.
\<close>

lemma rewrite_step_initialized:
  "rewrite_step this code = (tc, info, this1) \<Longrightarrow> isInitialized this1 = isInitialized this"
  by (auto simp: rewrite_step_def split_beta split: if_splits)

lemma execute_try_hangs:
  "(execute_try py pc t0 res w = None) =
   (calls_end py [redirect_script, pc, ''sys.stdout.getvalue()'', ''sys.stderr.getvalue()'',
                  restore_script] w = None)"
  by (auto simp: execute_try_def execute_catch_def Let_def
      split: option.splits prod.splits py_outcome.splits)

lemma execute_try_raise:
  assumes "execute_try py pc t0 res w = Some (res', wx)"
    and "first_raise py [redirect_script, pc, ''sys.stdout.getvalue()'',
                         ''sys.stderr.getvalue()'', restore_script] w = Some (e, wr)"
  shows "wr = wx \<and> \<not> success res' \<and> error res' = Str e \<and> executionTime res' = now wx - t0"
  using assms
  by (auto simp: execute_try_def execute_catch_def Let_def
      split: option.splits prod.splits py_outcome.splits)

lemma execute_try_no_raise:
  assumes "execute_try py pc t0 res w = Some (res', wx)"
    and "first_raise py [redirect_script, pc, ''sys.stdout.getvalue()'',
                         ''sys.stderr.getvalue()'', restore_script] w = None"
  shows "success res'"
  using assms
  by (auto simp: execute_try_def execute_catch_def Let_def
      split: option.splits prod.splits py_outcome.splits)

lemma execute_try_end:
  assumes "execute_try py pc t0 res w = Some (res', wx)"
  shows "calls_end py [redirect_script, pc, ''sys.stdout.getvalue()'',
                       ''sys.stderr.getvalue()'', restore_script] w = Some wx"
  using assms
  by (auto simp: execute_try_def execute_catch_def Let_def
      split: option.splits prod.splits py_outcome.splits)

lemma execute_try_success_time:
  assumes "execute_try py pc t0 res w = Some (res', wx)" and "success res'"
    and "runPython py redirect_script w = Some (Value v, w1)"
    and "runPython py pc w1 = Some (ro, w2)"
  shows "executionTime res' = now w2 - now w1"
  using assms
  by (auto simp: execute_try_def execute_catch_def Let_def
      split: option.splits prod.splits py_outcome.splits)

lemma getMemoryUsage_hangs:
  "isInitialized this \<Longrightarrow>
     (getMemoryUsage py this w = None) = (runPythonAsync py memory_script w = None)"
  by (auto simp: getMemoryUsage_def split: option.splits prod.splits py_outcome.splits jsval.splits)

lemma execute_unfold:
  assumes "isInitialized this" and "rewrite_step this code = (tc, info, this1)"
  shows "execute py this w code options =
     (case execute_try py (patched_code this code) (now w) (initial_result info) w of
        None \<Rightarrow> None
      | Some (res, w1) \<Rightarrow>
          if measures_performance options
          then (case getMemoryUsage py this1 w1 of
                  None \<Rightarrow> None
                | Some (mem, w2) \<Rightarrow> Some (Fulfilled (res\<lparr>memoryUsage := Some mem\<rparr>), this1, w2))
          else Some (Fulfilled res, this1, w1))"
  using assms unfolding measures_performance_def
  by (simp add: execute_def patched_code_def Let_def)

lemma execute_fulfilled_try:
  assumes "isInitialized this"
    and "execute py this w code options = Some (Fulfilled r, this', w')"
  obtains info res wx where
    "execute_try py (patched_code this code) (now w) (initial_result info) w = Some (res, wx)"
    "success r = success res" "error r = error res" "executionTime r = executionTime res"
proof -
  obtain tc info this1 where rw: "rewrite_step this code = (tc, info, this1)"
    by (cases "rewrite_step this code")
  note u = execute_unfold[OF assms(1) rw]
  show ?thesis
  proof (cases "execute_try py (patched_code this code) (now w) (initial_result info) w")
    case None
    with assms(2) show ?thesis unfolding u by simp
  next
    case (Some a)
    then obtain res wx where
      t: "execute_try py (patched_code this code) (now w) (initial_result info) w = Some (res, wx)"
      by (cases a) auto
    have "success r = success res \<and> error r = error res \<and> executionTime r = executionTime res"
      using assms(2) t unfolding u
      by (auto split: option.splits if_splits)
    with t that show ?thesis by blast
  qed
qed

lemma execute_paths:
  assumes "isInitialized this"
    and "execute py this w code options = Some (Fulfilled r, this', w')"
  shows "(\<forall>e wx. first_raise py (try_block_calls this code) w = Some (e, wx) \<longrightarrow>
            \<not> success r \<and> error r = Str e \<and> executionTime r = now wx - now w) \<and>
         (first_raise py (try_block_calls this code) w = None \<longrightarrow> success r) \<and>
         (\<forall>v w1 ro w2. runPython py redirect_script w = Some (Value v, w1) \<and>
            runPython py (patched_code this code) w1 = Some (ro, w2) \<and> success r \<longrightarrow>
            executionTime r = now w2 - now w1)"
proof -
  from execute_fulfilled_try[OF assms] obtain info res wx where
    t: "execute_try py (patched_code this code) (now w) (initial_result info) w = Some (res, wx)"
    and f: "success r = success res" "error r = error res" "executionTime r = executionTime res"
    by metis
  show ?thesis
    using execute_try_raise[OF t] execute_try_no_raise[OF t] execute_try_success_time[OF t] f
    by (auto simp: try_block_calls_def)
qed

text \<open>
  Claim C10. On an executor whose \<^verbatim>\<open>isInitialized\<close> is false, \<^verbatim>\<open>execute\<close> rejects with
  the message \<^verbatim>\<open>PyodideExecutor not initialized\<close>; the executor, its resolver included, and
  the world, its list of interpreter calls included, are what they were: nothing was
  rewritten and the interpreter was not called.
\<close>

theorem execute_before_initialization:
  "\<not> isInitialized this \<Longrightarrow>
     execute py this w code options
       = Some (Rejected ''PyodideExecutor not initialized'', this, w)"
  by (simp add: execute_def)

text \<open>Witness for C10: the executor as the constructor leaves it.\<close>

theorem execute_before_initialization_witness:
  "\<not> isInitialized new_executor \<and>
   execute demo_pyodide new_executor world0 ''print(42)'' no_options
     = Some (Rejected ''PyodideExecutor not initialized'', new_executor, world0)"
  using execute_before_initialization
    [of new_executor demo_pyodide world0 "''print(42)''" no_options]
  by (simp add: new_executor_def)

text \<open>
  Claim C1, evaluated on a program that raises. The streams are the original ones before
  the call. The call resolves with success false, and afterwards \<^verbatim>\<open>sys.stdout\<close> and
  \<^verbatim>\<open>sys.stderr\<close> are still the in-memory buffers: the interpreter received the
  redirection script, the program and the memory script, and never the script that
  restores the streams.
\<close>

theorem raising_run_leaves_streams_redirected:
  "sys_stdout world0 = Original \<and> sys_stderr world0 = Original \<and>
   map_option success (result_of (execute demo_pyodide ready_executor world0 ''1/0'' no_options))
     = Some False \<and>
   map_option sys_stdout (world_after (execute demo_pyodide ready_executor world0 ''1/0'' no_options))
     = Some (StringIO []) \<and>
   map_option sys_stderr (world_after (execute demo_pyodide ready_executor world0 ''1/0'' no_options))
     = Some (StringIO []) \<and>
   map_option py_calls (world_after (execute demo_pyodide ready_executor world0 ''1/0'' no_options))
     = Some [redirect_script, filePatch @ [CHR 0x0A] @ ''1/0'', memory_script]"
  by (simp add: demo_division result_of_def world_after_def) (simp add: world0_def)

text \<open>
  Counterexample for C6. The redirection script takes 5 ticks; the run call of the
  program that raises takes 7; the reported \<^verbatim>\<open>executionTime\<close> is 12: on the exception
  path the stream setup is counted.
\<close>

theorem executionTime_exception_path_counterexample:
  "runPython demo_pyodide redirect_script world0 = Some (Value Undefined, redirected0) \<and>
   call_duration demo_pyodide (patched_code ready_executor ''1/0'') redirected0 = Some 7 \<and>
   map_option executionTime
     (result_of (execute demo_pyodide ready_executor world0 ''1/0'' no_options)) = Some 12"
proof -
  have "call_duration demo_pyodide (patched_code ready_executor ''1/0'') redirected0 = Some 7"
    by (simp add: call_duration_def demo_division_call) (simp add: redirected0_def)
  then show ?thesis
    by (simp add: demo_division demo_redirect result_of_def)
qed

text \<open>
  Claim C6, amended. Let \<^verbatim>\<open>execute\<close> resolve to a result on an initialized executor.
  When one of the five calls of the \<^verbatim>\<open>try\<close> block raises (the redirection script, the
  run call, either \<^verbatim>\<open>getvalue\<close> call or the restore script), the result reports
  failure with the message of that call, and its \<^verbatim>\<open>executionTime\<close> is the time from
  \<^verbatim>\<open>startTime\<close>, read before the stream setup, to the world that call left: it
  includes the setup. When no call raises the result reports success, and whenever it
  reports success its \<^verbatim>\<open>executionTime\<close> is the clock difference around the run call
  alone, between the world \<open>w1\<close> the redirection script left and the world \<open>w2\<close> the run
  call left, setup and teardown excluded.
\<close>

theorem executionTime_of_both_paths:
  assumes "isInitialized this"
    and "execute py this w code options = Some (Fulfilled r, this', w')"
  shows "(\<forall>e wx. first_raise py (try_block_calls this code) w = Some (e, wx) \<longrightarrow>
            \<not> success r \<and> error r = Str e \<and> executionTime r = now wx - now w) \<and>
         (first_raise py (try_block_calls this code) w = None \<longrightarrow> success r) \<and>
         (\<forall>v w1 ro w2. runPython py redirect_script w = Some (Value v, w1) \<and>
            runPython py (patched_code this code) w1 = Some (ro, w2) \<and> success r \<longrightarrow>
            executionTime r = now w2 - now w1)"
  using assms by (rule execute_paths)

text \<open>
  Witness for the amended C6: the program that prints (success, 3 ticks between the worlds
  at 5 and 8); the program that raises (12 ticks from the world at 0); the program that
  rebinds \<^verbatim>\<open>sys.stdout\<close>, so that the first \<^verbatim>\<open>getvalue\<close> call raises (8 ticks, the run
  call alone took 2); and the printing program on interpreters where the redirection
  script, the second \<^verbatim>\<open>getvalue\<close> call or the restore script raises (1, 10 and 11
  ticks).
\<close>

theorem executionTime_of_both_paths_witness:
  "isInitialized ready_executor \<and>
   first_raise demo_pyodide (try_block_calls ready_executor ''print(42)'') world0 = None \<and>
   (\<exists>r t w'. execute demo_pyodide ready_executor world0 ''print(42)'' no_options
        = Some (Fulfilled r, t, w') \<and> success r \<and> executionTime r = 8 - 5) \<and>
   (\<exists>r t w'. execute demo_pyodide ready_executor world0 ''1/0'' no_options
        = Some (Fulfilled r, t, w') \<and> \<not> success r \<and>
        error r = Str ''ZeroDivisionError: division by zero'' \<and> executionTime r = 12) \<and>
   (\<exists>r t w'. execute rebinding_pyodide ready_executor world0 rebinding_program no_options
        = Some (Fulfilled r, t, w') \<and> \<not> success r \<and>
        error r = Str ''AttributeError: object has no attribute getvalue'' \<and>
        executionTime r = 8) \<and>
   (\<exists>r t w'. execute (faulty_pyodide redirect_script) ready_executor world0 ''print(42)''
        no_options = Some (Fulfilled r, t, w') \<and> \<not> success r \<and> executionTime r = 1) \<and>
   (\<exists>r t w'. execute (faulty_pyodide ''sys.stderr.getvalue()'') ready_executor world0
        ''print(42)'' no_options = Some (Fulfilled r, t, w') \<and> \<not> success r \<and>
        executionTime r = 10) \<and>
   (\<exists>r t w'. execute (faulty_pyodide restore_script) ready_executor world0 ''print(42)''
        no_options = Some (Fulfilled r, t, w') \<and> \<not> success r \<and> executionTime r = 11)"
proof -
  note i = ready_initialized
  have w0: "now world0 = 0" by (simp add: world0_def)
  have failing: "\<exists>r t w'. execute py ready_executor world0 c no_options = Some (Fulfilled r, t, w')
        \<and> \<not> success r \<and> executionTime r = n
        \<and> (\<forall>m. map_option fst (first_raise py (try_block_calls ready_executor c) world0) = Some m
               \<longrightarrow> error r = Str m)"
    if e: "\<exists>r t w'. execute py ready_executor world0 c no_options = Some (Fulfilled r, t, w')"
      and f: "map_option (now \<circ> snd) (first_raise py (try_block_calls ready_executor c) world0)
                = Some n"
    for py c n
  proof -
    from e obtain r t w' where
      e': "execute py ready_executor world0 c no_options = Some (Fulfilled r, t, w')" by blast
    from f obtain m wx where
      fr: "first_raise py (try_block_calls ready_executor c) world0 = Some (m, wx)"
      and n: "now wx = n"
      by (cases "first_raise py (try_block_calls ready_executor c) world0") auto
    from executionTime_of_both_paths [OF i e'] fr n w0
    have "\<not> success r \<and> error r = Str m \<and> executionTime r = n" by simp
    with e' fr show ?thesis by auto
  qed
  have ok: "\<exists>r t w'. execute demo_pyodide ready_executor world0 ''print(42)'' no_options
              = Some (Fulfilled r, t, w') \<and> success r \<and> executionTime r = 8 - 5"
  proof -
    from demo_print obtain r t w' where
      e': "execute demo_pyodide ready_executor world0 ''print(42)'' no_options
             = Some (Fulfilled r, t, w')" by blast
    from executionTime_of_both_paths [OF i e'] demo_print_no_raise demo_redirect demo_print_call
    have "success r \<and> executionTime r = 8 - 5"
      by (auto simp: redirected0_def)
    with e' show ?thesis by blast
  qed
  have e1: "\<exists>r t w'. execute demo_pyodide ready_executor world0 ''1/0'' no_options
              = Some (Fulfilled r, t, w')"
    using demo_division by blast
  show ?thesis
    using i demo_print_no_raise ok
      failing [OF e1 raise_runs(2)] raise_runs(1)
      failing [OF resolved_runs(1) raise_runs(4)] raise_runs(3)
      failing [OF resolved_runs(2) raise_runs(5)]
      failing [OF resolved_runs(3) raise_runs(6)]
      failing [OF resolved_runs(4) raise_runs(7)]
    by blast
qed

text \<open>
  Counterexample for C7. For the program that loops forever the call never settles: no
  timer is armed and the \<^verbatim>\<open>timeout\<close> option is never read. Before initialization the
  promise is rejected.
\<close>

theorem execute_unresolved_counterexample:
  "execute demo_pyodide ready_executor world0 ''while True: pass'' no_options = None \<and>
   map_option fst (execute demo_pyodide new_executor world0 ''print(42)'' no_options)
     = Some (Rejected ''PyodideExecutor not initialized'')"
  by (simp add: demo_loop) (simp add: execute_def new_executor_def)

text \<open>
  Claim C7, amended. On an initialized executor and for every code and options object:
  when every interpreter call that \<^verbatim>\<open>execute\<close> makes on this input returns or raises,
  \<^verbatim>\<open>execute\<close> resolves to a result; when one of them never returns, \<^verbatim>\<open>execute\<close> never
  settles, since no timeout is armed. A result reports success exactly when no call of the
  \<^verbatim>\<open>try\<close> block raised; when one raised, whichever of the five it is, the result has
  \<open>success = False\<close> and the message of that call in \<open>error\<close>.
\<close>

theorem execute_resolves_when_interpreter_returns:
  assumes "isInitialized this"
  shows "(calls_return py this w code options \<longrightarrow>
            (\<exists>r this' w'. execute py this w code options = Some (Fulfilled r, this', w'))) \<and>
         (\<not> calls_return py this w code options \<longrightarrow>
            execute py this w code options = None) \<and>
         (\<forall>r this' w'. execute py this w code options = Some (Fulfilled r, this', w') \<longrightarrow>
            (success r \<longleftrightarrow> first_raise py (try_block_calls this code) w = None) \<and>
            (\<forall>e wx. first_raise py (try_block_calls this code) w = Some (e, wx) \<longrightarrow>
               \<not> success r \<and> error r = Str e))"
proof (intro conjI impI allI)
  obtain tc info this1 where rw: "rewrite_step this code = (tc, info, this1)"
    by (cases "rewrite_step this code")
  have i1: "isInitialized this1" using rewrite_step_initialized[OF rw] assms by simp
  note u = execute_unfold[OF assms rw]
  {
    assume c: "calls_return py this w code options"
    then obtain wx where e: "calls_end py (try_block_calls this code) w = Some wx"
      and m: "\<not> measures_performance options \<or> runPythonAsync py memory_script wx \<noteq> None"
      by (auto simp: calls_return_def split: option.splits)
    from e obtain res wy where
      t: "execute_try py (patched_code this code) (now w) (initial_result info) w = Some (res, wy)"
      using execute_try_hangs[of py "patched_code this code" "now w" "initial_result info" w]
      by (cases "execute_try py (patched_code this code) (now w) (initial_result info) w")
         (auto simp: try_block_calls_def)
    from execute_try_end[OF t] e have "wy = wx" by (simp add: try_block_calls_def)
    with m getMemoryUsage_hangs[OF i1, of py wx] t
    show "\<exists>r this' w'. execute py this w code options = Some (Fulfilled r, this', w')"
      unfolding u by (auto split: option.splits)
  }
  {
    assume c: "\<not> calls_return py this w code options"
    show "execute py this w code options = None"
    proof (cases "execute_try py (patched_code this code) (now w) (initial_result info) w")
      case None
      then show ?thesis unfolding u by simp
    next
      case (Some a)
      then obtain res wy where
        t: "execute_try py (patched_code this code) (now w) (initial_result info) w = Some (res, wy)"
        by (cases a) auto
      from execute_try_end[OF t] c
      have "measures_performance options \<and> runPythonAsync py memory_script wy = None"
        by (cases "runPythonAsync py memory_script wy")
           (auto simp: calls_return_def try_block_calls_def)
      with getMemoryUsage_hangs[OF i1, of py wy] t show ?thesis
        unfolding u by simp
    qed
  }
  {
    fix r this' w'
    assume e: "execute py this w code options = Some (Fulfilled r, this', w')"
    note c6 = execute_paths[OF assms e]
    show "success r \<longleftrightarrow> first_raise py (try_block_calls this code) w = None"
      using c6 by (cases "first_raise py (try_block_calls this code) w") auto
    fix ee wx
    assume "first_raise py (try_block_calls this code) w = Some (ee, wx)"
    with c6 show "\<not> success r" and "error r = Str ee" by auto
  }
qed

lemma returning_runs:
  "calls_return demo_pyodide ready_executor world0 ''print(42)'' no_options"
  "calls_return demo_pyodide ready_executor world0 ''1/0'' no_options"
  "calls_return rebinding_pyodide ready_executor world0 rebinding_program no_options"
  "\<not> calls_return demo_pyodide ready_executor world0 ''while True: pass'' no_options"
  by (simp_all add: run_defs demo_defs)

text \<open>
  Witness for the amended C7, on the small interpreter: the calls made for the program that
  prints all return and the result reports success; those made for the program that
  raises and for the program that rebinds \<^verbatim>\<open>sys.stdout\<close> all return and the results
  carry the error; the run call of the endless loop never returns and \<^verbatim>\<open>execute\<close> does
  not settle.
\<close>

theorem execute_resolves_when_interpreter_returns_witness:
  "isInitialized ready_executor \<and>
   calls_return demo_pyodide ready_executor world0 ''print(42)'' no_options \<and>
   (\<exists>r t w'. execute demo_pyodide ready_executor world0 ''print(42)'' no_options
        = Some (Fulfilled r, t, w') \<and> success r) \<and>
   calls_return demo_pyodide ready_executor world0 ''1/0'' no_options \<and>
   (\<exists>r t w'. execute demo_pyodide ready_executor world0 ''1/0'' no_options
        = Some (Fulfilled r, t, w') \<and> \<not> success r \<and>
        error r = Str ''ZeroDivisionError: division by zero'') \<and>
   calls_return rebinding_pyodide ready_executor world0 rebinding_program no_options \<and>
   (\<exists>r t w'. execute rebinding_pyodide ready_executor world0 rebinding_program no_options
        = Some (Fulfilled r, t, w') \<and> \<not> success r \<and>
        error r = Str ''AttributeError: object has no attribute getvalue'') \<and>
   \<not> calls_return demo_pyodide ready_executor world0 ''while True: pass'' no_options \<and>
   execute demo_pyodide ready_executor world0 ''while True: pass'' no_options = None"
proof -
  note i = ready_initialized
  note t = execute_resolves_when_interpreter_returns [OF i]
  have captured: "\<exists>r t w'. execute py ready_executor world0 c no_options = Some (Fulfilled r, t, w')
        \<and> \<not> success r \<and> error r = Str m"
    if c: "calls_return py ready_executor world0 c no_options"
      and f: "map_option fst (first_raise py (try_block_calls ready_executor c) world0) = Some m"
    for py c m
  proof -
    from t [of py world0 c no_options] c obtain r t' w' where
      e: "execute py ready_executor world0 c no_options = Some (Fulfilled r, t', w')" by blast
    from f obtain wx where
      fr: "first_raise py (try_block_calls ready_executor c) world0 = Some (m, wx)"
      by (cases "first_raise py (try_block_calls ready_executor c) world0") auto
    from t [of py world0 c no_options] e fr
    have "\<not> success r \<and> error r = Str m" by blast
    with e show ?thesis by blast
  qed
  have ok: "\<exists>r t w'. execute demo_pyodide ready_executor world0 ''print(42)'' no_options
              = Some (Fulfilled r, t, w') \<and> success r"
  proof -
    from t [of demo_pyodide world0 "''print(42)''" no_options] returning_runs(1)
    obtain r t' w' where
      e: "execute demo_pyodide ready_executor world0 ''print(42)'' no_options
            = Some (Fulfilled r, t', w')" by blast
    from t [of demo_pyodide world0 "''print(42)''" no_options] e demo_print_no_raise
    have "success r" by blast
    with e show ?thesis by blast
  qed
  have hung: "execute demo_pyodide ready_executor world0 ''while True: pass'' no_options = None"
    using t [of demo_pyodide world0 "''while True: pass''" no_options] returning_runs(4)
    by blast
  show ?thesis
    using i returning_runs ok hung
      captured [OF returning_runs(2) raise_runs(1)]
      captured [OF returning_runs(3) raise_runs(3)]
    by blast
qed

section \<open>Properties of the test-result parser\<close>

lemma split_from_not_empty: "split_from sep acc s \<noteq> []"
  by (induction sep acc s rule: split_from.induct) auto

lemma str_split_not_empty: "str_split s sep \<noteq> []"
  by (simp add: str_split_def split_from_not_empty)

lemma collect_json_no_start:
  "''TEST_RESULTS_START'' \<notin> set ls \<Longrightarrow> collect_json ls False acc = acc"
  by (induction ls) auto

lemma fallback_loop_map_filter:
  "fallback_loop ls f acc = acc @ map (recovered_outcome f) (filter report_shaped ls)"
  by (induction ls arbitrary: acc)
     (simp_all add: report_shaped_def recovered_outcome_def reported_status_def Let_def)

text \<open>
  Claim C9. When no line of the captured output is the start marker (whether or not the
  end marker is there), \<^verbatim>\<open>parseTestResults\<close> does not answer with a parse error: it
  returns what \<^verbatim>\<open>parseFallbackResults\<close> returns, and that is, in the order of the lines,
  one outcome for each line that contains \<^verbatim>\<open>::\<close> together with \<^verbatim>\<open>PASSED\<close>,
  \<^verbatim>\<open>FAILED\<close> or \<^verbatim>\<open>ERROR\<close>, recovered from that line.
\<close>

theorem missing_markers_fall_back:
  assumes "''TEST_RESULTS_START'' \<notin> set (str_split out [CHR 0x0A])"
  shows "parseTestResults json_parse out fileName = parseFallbackResults out fileName
       \<and> parseFallbackResults out fileName
           = map (recovered_outcome fileName) (filter report_shaped (str_split out [CHR 0x0A]))"
  using assms
  by (simp add: parseTestResults_def parseFallbackResults_def collect_json_no_start
      fallback_loop_map_filter)

text \<open>
  Witness for C9: three lines of output without markers, two of them test reports; the
  parser whose \<^verbatim>\<open>JSON.parse\<close> always throws still returns the two outcomes.
\<close>

theorem missing_markers_fall_back_witness:
  "''TEST_RESULTS_START'' \<notin> set (str_split crashed_output [CHR 0x0A]) \<and>
   parseTestResults (\<lambda>s. None) crashed_output ''test_a.py'' =
     [\<lparr>test_name = ''test_one'', test_status = ''passed'', duration = 0,
       test_output = ''tests/test_a.py::test_one PASSED'', test_error = None,
       test_file = ''test_a.py''\<rparr>,
      \<lparr>test_name = ''test_two'', test_status = ''failed'', duration = 0,
       test_output = ''tests/test_a.py::TestX::test_two FAILED - boom'',
       test_error = Some ''tests/test_a.py::TestX::test_two FAILED - boom'',
       test_file = ''test_a.py''\<rparr>]"
proof -
  have h: "''TEST_RESULTS_START'' \<notin> set (str_split crashed_output [CHR 0x0A])"
    by (simp add: crashed_output_def str_split_def)
  have "map (recovered_outcome ''test_a.py'')
          (filter report_shaped (str_split crashed_output [CHR 0x0A])) =
     [\<lparr>test_name = ''test_one'', test_status = ''passed'', duration = 0,
       test_output = ''tests/test_a.py::test_one PASSED'', test_error = None,
       test_file = ''test_a.py''\<rparr>,
      \<lparr>test_name = ''test_two'', test_status = ''failed'', duration = 0,
       test_output = ''tests/test_a.py::TestX::test_two FAILED - boom'',
       test_error = Some ''tests/test_a.py::TestX::test_two FAILED - boom'',
       test_file = ''test_a.py''\<rparr>]"
    by (simp add: crashed_output_def str_split_def report_shaped_def recovered_outcome_def
        reported_status_def)
  with h missing_markers_fall_back [OF h, of "\<lambda>s. None" "''test_a.py''"]
  show ?thesis by simp
qed

section \<open>Properties of the import rewriter\<close>

lemma search_later:
  "search r p s i = None \<Longrightarrow> k \<le> length s \<Longrightarrow>
     search r (if k = 0 then p else Some (s ! (k - 1))) (drop k s) (i + k) = None"
proof (induction s arbitrary: p i k)
  case Nil
  then show ?case by simp
next
  case (Cons x xs)
  show ?case
  proof (cases k)
    case 0
    with Cons.prems show ?thesis by simp
  next
    case (Suc k')
    from Cons.prems(1) have "search r (Some x) xs (Suc i) = None"
      by (simp split: option.splits)
    from Cons.IH[OF this, of k'] Cons.prems(2) Suc
    have "search r (if k' = 0 then Some x else Some (xs ! (k' - 1))) (drop k' xs) (Suc i + k')
            = None"
      by simp
    moreover have "(if k' = 0 then Some x else Some (xs ! (k' - 1))) = Some ((x # xs) ! k')"
      by (cases k') simp_all
    ultimately show ?thesis using Suc by simp
  qed
qed

lemma test_without_match:
  assumes "global re" and "search (atoms re) None s 0 = None"
  shows "regexp_test re s = (False, re\<lparr>lastIndex := 0\<rparr>)"
proof (cases "lastIndex re > length s")
  case True
  with assms show ?thesis by (simp add: regexp_test_def regexp_exec_def)
next
  case False
  then have "search (atoms re) (char_before s (lastIndex re)) (drop (lastIndex re) s) (lastIndex re)
               = None"
    using search_later[OF assms(2), of "lastIndex re"] by (simp add: char_before_def)
  with assms False show ?thesis by (simp add: regexp_test_def regexp_exec_def)
qed

lemma rel_rules_idle:
  "\<forall>r \<in> set rs. global (pattern r) \<and> search (atoms (pattern r)) None line 0 = None \<Longrightarrow>
     apply_rel_rules rs line n = (map unstate rs, line, n)"
  by (induction rs) (simp_all add: test_without_match unstate_def)

lemma src_rules_stateless:
  "snd (apply_src_rules rs code ts) = snd (apply_src_rules (map unstate rs) code ts) \<and>
   fst (apply_src_rules rs code ts) = map unstate rs"
proof (induction rs arbitrary: code ts)
  case Nil
  show ?case by simp
next
  case (Cons r rs)
  show ?case
    using Cons.IH
    by (cases "match_all (atoms (pattern r)) None code = []")
       (simp_all add: str_match_def str_replace_def unstate_def regexp_toString_def Let_def
          split_beta)
qed

lemma example_src_phase:
  "snd (apply_src_rules importTransformations_init example_line [])
     = (example_rewritten, [example_entry])"
  by code_simp

lemma example_one_line: "str_split example_rewritten [CHR 0x0A] = [example_rewritten]"
  by code_simp

lemma example_no_relative_match:
  "list_all (\<lambda>r. global (pattern r) \<and> search (atoms (pattern r)) None example_rewritten 0 = None)
     relativeImportMappings_init"
  by code_simp

lemma example_validation:
  "validateTransformation example_line example_rewritten = ([], [])"
  by code_simp

lemma fresh_tables_intact: "tables_intact new_resolver"
  by code_simp

text \<open>
  Claim C8. In whatever state its regexps are, the resolver turns the line
  \<^verbatim>\<open>from src.chapter_01.dynamic_array import DynamicArray\<close> into
  \<^verbatim>\<open>from mastering_performant_code.chapter_01.dynamic_array import DynamicArray\<close>, and
  the diagnostics list exactly one transformation, that of the pattern
  \<^verbatim>\<open>/from\s+src\./g\<close>, with count 1, no warning and no error; every regexp is left with
  \<^verbatim>\<open>lastIndex\<close> 0.
\<close>

theorem example_rewrite:
  assumes "tables_intact this"
  shows "transformCode this example_line =
     (\<lparr>transformedCode = example_rewritten,
       diagnostics = \<lparr>transformations = [example_entry], warnings = [], errors = []\<rparr>\<rparr>,
      new_resolver)"
proof -
  from assms have its: "map unstate (importTransformations this) = importTransformations_init"
    and rels: "map unstate (relativeImportMappings this) = relativeImportMappings_init"
    by (simp_all add: tables_intact_def)
  have src: "apply_src_rules (importTransformations this) example_line []
               = (importTransformations_init, example_rewritten, [example_entry])"
    using src_rules_stateless[of "importTransformations this" example_line "[]"]
    by (simp add: its example_src_phase prod_eq_iff)
  have "\<forall>r \<in> set (relativeImportMappings this).
          global (pattern r) \<and> search (atoms (pattern r)) None example_rewritten 0 = None"
  proof
    fix r assume "r \<in> set (relativeImportMappings this)"
    then have "unstate r \<in> set relativeImportMappings_init"
      using rels by (metis image_eqI set_map)
    with example_no_relative_match
    have "global (pattern (unstate r)) \<and>
          search (atoms (pattern (unstate r))) None example_rewritten 0 = None"
      by (simp add: list_all_iff)
    then show "global (pattern r) \<and> search (atoms (pattern r)) None example_rewritten 0 = None"
      by (simp add: unstate_def)
  qed
  then have rel: "apply_rel_rules (relativeImportMappings this) example_rewritten 0
                    = (relativeImportMappings_init, example_rewritten, 0)"
    using rel_rules_idle[of "relativeImportMappings this" example_rewritten 0] rels by simp
  show ?thesis
    by (simp add: transformCode_def src example_one_line rel example_validation new_resolver_def)
qed

text \<open>Witness for C8: the resolver as the constructor builds it, on the line written out.\<close>

theorem example_rewrite_witness:
  "tables_intact new_resolver \<and>
   transformedCode (fst (transformCode new_resolver
       ''from src.chapter_01.dynamic_array import DynamicArray''))
     = ''from mastering_performant_code.chapter_01.dynamic_array import DynamicArray'' \<and>
   map t_count (transformations (diagnostics (fst (transformCode new_resolver
       ''from src.chapter_01.dynamic_array import DynamicArray'')))) = [1]"
  using example_rewrite [OF fresh_tables_intact] fresh_tables_intact
  by (simp add: example_line_def example_rewritten_def example_entry_def)

text \<open>Five calls of \<^verbatim>\<open>transformCode\<close>, evaluated.\<close>

lemma plain_on_fresh:
  "transformCode new_resolver plain_line = (rewritten_once plain_rewritten, new_resolver)"
  by code_simp

lemma guarded_on_fresh:
  "transformCode new_resolver guarded_line = (untouched guarded_line, stale_resolver)"
  by code_simp

lemma plain_on_stale:
  "transformCode stale_resolver plain_line = (untouched plain_line, new_resolver)"
  by code_simp

lemma three_lines_on_fresh:
  "transformCode new_resolver three_lines = (untouched three_lines, stale_resolver)"
  by code_simp

lemma three_lines_on_stale:
  "transformCode stale_resolver three_lines
     = (rewritten_once three_lines_rewritten, stale_resolver)"
  by code_simp

lemma plain_results_differ: "rewritten_once plain_rewritten \<noteq> untouched plain_line"
  by (simp add: rewritten_once_def untouched_def plain_rewritten_def plain_line_def)

lemma three_lines_differ: "three_lines_rewritten \<noteq> three_lines"
  by (simp add: three_lines_rewritten_def three_lines_def plain_rewritten_def plain_line_def)

text \<open>
  Claim C3, evaluated on one resolver. The first call on \<open>plain_line\<close> rewrites it to the
  chapter 9 module and reports one transformation. A call on \<open>guarded_line\<close> follows; its
  \<^verbatim>\<open>pattern.test(line)\<close> succeeds for the \<^verbatim>\<open>from btree\<close> rule, the guard then skips
  \<^verbatim>\<open>replace\<close>, and the regexp keeps \<^verbatim>\<open>lastIndex\<close> 79. The next call on \<open>plain_line\<close>
  starts that regexp beyond the end of the line: the text comes back unchanged, with no
  transformation and a warning. Two calls on the same text gave different results.
\<close>

theorem transformCode_depends_on_earlier_calls:
  "transformCode new_resolver plain_line = (rewritten_once plain_rewritten, new_resolver) \<and>
   transformCode new_resolver guarded_line = (untouched guarded_line, stale_resolver) \<and>
   transformCode stale_resolver plain_line = (untouched plain_line, new_resolver) \<and>
   fst (transformCode stale_resolver plain_line) \<noteq> fst (transformCode new_resolver plain_line)"
  using plain_results_differ
  by (simp add: plain_on_fresh guarded_on_fresh plain_on_stale)

text \<open>
  Claim C5, evaluated on a new resolver. The first transformation of \<open>three_lines\<close>
  returns the text as it is: when the second line is reached, the regexp of the
  \<^verbatim>\<open>from btree\<close> rule still has the \<^verbatim>\<open>lastIndex\<close> left by the first line. Transforming
  the returned text again rewrites its second line: the second result differs from the
  first.
\<close>

theorem second_transform_changes_text:
  "transformedCode (fst (transformCode new_resolver three_lines)) = three_lines \<and>
   transformedCode
     (fst (transformCode (snd (transformCode new_resolver three_lines))
             (transformedCode (fst (transformCode new_resolver three_lines)))))
     = three_lines_rewritten \<and>
   transformedCode
     (fst (transformCode (snd (transformCode new_resolver three_lines))
             (transformedCode (fst (transformCode new_resolver three_lines)))))
     \<noteq> transformedCode (fst (transformCode new_resolver three_lines))"
  using three_lines_differ
  by (simp add: three_lines_on_fresh three_lines_on_stale untouched_def rewritten_once_def)

end
